theory Spec2Isabelle
  imports Complex_Main
begin

section \<open>Data model\<close>

text \<open>
  The course platform keeps its state in a relational database that the tRPC routers read
  and write through Prisma. The tables are modelled as lists of records holding the columns
  the routers below read or write; columns that no modelled procedure touches (avatars,
  timestamps set by the database, free-form audit metadata) are left out.
  Identifiers are the cuid strings of the source, a \<open>Date\<close> is its number of milliseconds
  since the epoch, and a JavaScript \<open>number\<close> or a Prisma \<open>Decimal\<close> holding a price or a
  rate is a real number: arithmetic is exact, binary rounding is not modelled. Integer
  columns and counts are integers.
\<close>

type_synonym ident = string
type_synonym date = int

datatype DiscountType = PERCENTAGE | FIXED_AMOUNT

datatype EnrollmentStatus = ACTIVE | EXPIRED | REFUNDED

datatype Difficulty = BEGINNER | INTERMEDIATE | ADVANCED | EXPERT

record Coupon =
  cp_id :: ident
  cp_code :: string
  cp_name :: string
  cp_description :: "string option"
  cp_discountType :: DiscountType
  cp_discountValue :: real
  cp_maxUses :: "int option"
  cp_maxUsesPerUser :: "int option"
  cp_usedCount :: int
  cp_validFrom :: "date option"
  cp_validUntil :: "date option"
  cp_isGlobal :: bool
  cp_isActive :: bool
  cp_createdById :: ident

record CourseCoupon =
  cc_couponId :: ident
  cc_courseId :: ident

record CouponUsage =
  cu_userId :: ident
  cu_couponId :: ident
  cu_courseId :: ident
  cu_discountAmount :: real

record Enrollment =
  en_userId :: ident
  en_courseId :: ident
  en_appliedCouponId :: "ident option"
  en_status :: EnrollmentStatus
  en_progress :: real
  en_completedAt :: "date option"

record Course =
  co_id :: ident
  co_slug :: string
  co_title :: string
  co_description :: string
  co_price :: real
  co_difficulty :: Difficulty
  co_categoryId :: ident
  co_creatorId :: ident
  co_language :: string
  co_isFree :: bool
  co_published :: bool
  co_featured :: bool
  co_thumbnail :: "string option"
  co_coverImage :: "string option"

record Lesson =
  le_id :: ident
  le_courseId :: ident
  le_order :: int
  le_videoUrl :: "string option"
  le_isRequired :: bool

record StudentProgress =
  sp_id :: ident
  sp_userId :: ident
  sp_courseId :: ident
  sp_totalWatchTime :: int
  sp_completionRate :: real
  sp_lastAccessedAt :: "date option"

record LessonProgress =
  lp_userId :: ident
  lp_lessonId :: ident
  lp_studentProgressId :: ident
  lp_watchTime :: int
  lp_completed :: bool
  lp_lastPosition :: int
  lp_completedAt :: "date option"

record Category =
  ca_id :: ident
  ca_name :: string
  ca_slug :: string

record AuditLog =
  al_action :: string
  al_actorId :: ident
  al_actorType :: string
  al_resourceId :: "ident option"
  al_resourceType :: string

record db =
  coupons :: "Coupon list"
  courseCoupons :: "CourseCoupon list"
  couponUsages :: "CouponUsage list"
  enrollments :: "Enrollment list"
  courses :: "Course list"
  lessons :: "Lesson list"
  studentProgresses :: "StudentProgress list"
  lessonProgresses :: "LessonProgress list"
  categories :: "Category list"
  auditLogs :: "AuditLog list"

subsection \<open>Errors\<close>

text \<open>
  A procedure throws a \<open>TRPCError\<close> with a code and a message. Inside a handler's
  \<open>try\<close> block anything else that is thrown (a Prisma error on a violated unique index or
  on a missing row) is caught and replaced by an \<open>INTERNAL_SERVER_ERROR\<close> with the
  handler's own message.
\<close>

datatype error_code =
  NOT_FOUND | CONFLICT | FORBIDDEN | UNAUTHORIZED | BAD_REQUEST | INTERNAL_SERVER_ERROR

datatype TRPCError = TRPCError (code: error_code) (message: string)

datatype exn = Trpc TRPCError | PrismaError

definition catch :: "string \<Rightarrow> exn \<Rightarrow> TRPCError" where
  "catch msg e = (case e of Trpc t \<Rightarrow> t | PrismaError \<Rightarrow> TRPCError INTERNAL_SERVER_ERROR msg)"

subsection \<open>Strings\<close>

text \<open>
  \<open>toUpperCase\<close> on the ASCII letters; the coupon codes the admin schema admits are ASCII.
\<close>

definition toUpperChar :: "char \<Rightarrow> char" where
  "toUpperChar c =
     (case map_of (zip ''abcdefghijklmnopqrstuvwxyz'' ''ABCDEFGHIJKLMNOPQRSTUVWXYZ'') c of
        Some u \<Rightarrow> u
      | None \<Rightarrow> c)"

definition toUpperCase :: "string \<Rightarrow> string" where
  "toUpperCase s = map toUpperChar s"

text \<open>
  \<open>z.string().cuid()\<close> of the zod library accepts a string that starts with the letter c
  in either case, followed by at least eight characters that are neither white space nor a
  hyphen.
\<close>

definition cuid :: "string \<Rightarrow> bool" where
  "cuid s =
     (case s of
        [] \<Rightarrow> False
      | c # r \<Rightarrow> (c = CHR ''c'' \<or> c = CHR ''C'') \<and> 8 \<le> length r \<and>
          list_all (\<lambda>x. x \<notin> set [CHR '' '', CHR 0x09, CHR 0x0A, CHR 0x0B, CHR 0x0C,
                                  CHR 0x0D, CHR ''-'']) r)"

section \<open>Coupon queries shared by the routers\<close>

definition coupon_findUnique_code :: "db \<Rightarrow> string \<Rightarrow> Coupon option" where
  "coupon_findUnique_code d c = find (\<lambda>k. cp_code k = c) (coupons d)"

definition coupon_findUnique_id :: "db \<Rightarrow> ident \<Rightarrow> Coupon option" where
  "coupon_findUnique_id d i = find (\<lambda>k. cp_id k = i) (coupons d)"

text \<open>The relations a coupon query includes: \<open>courseCoupons: { where: { courseId } }\<close> and
  \<open>couponUsage: { where: { userId } }\<close>.\<close>

definition courseCoupons_where :: "db \<Rightarrow> Coupon \<Rightarrow> ident \<Rightarrow> CourseCoupon list" where
  "courseCoupons_where d k courseId =
     filter (\<lambda>x. cc_couponId x = cp_id k \<and> cc_courseId x = courseId) (courseCoupons d)"

definition couponUsage_where :: "db \<Rightarrow> Coupon \<Rightarrow> ident \<Rightarrow> CouponUsage list" where
  "couponUsage_where d k userId =
     filter (\<lambda>x. cu_couponId x = cp_id k \<and> cu_userId x = userId) (couponUsages d)"

text \<open>JavaScript truthiness of a nullable number (\<open>coupon.maxUses && ...\<close>): neither
  \<open>null\<close> nor zero. A nullable \<open>Date\<close> is truthy exactly when it is not \<open>null\<close>.\<close>

definition truthy_num :: "int option \<Rightarrow> bool" where
  "truthy_num x = (case x of None \<Rightarrow> False | Some n \<Rightarrow> n \<noteq> 0)"

definition date_gt :: "date option \<Rightarrow> date \<Rightarrow> bool" where
  "date_gt x now = (case x of None \<Rightarrow> False | Some t \<Rightarrow> t > now)"

definition date_lt :: "date option \<Rightarrow> date \<Rightarrow> bool" where
  "date_lt x now = (case x of None \<Rightarrow> False | Some t \<Rightarrow> t < now)"

definition usage_limit_reached :: "Coupon \<Rightarrow> bool" where
  "usage_limit_reached k =
     (truthy_num (cp_maxUses k) \<and> cp_usedCount k \<ge> the (cp_maxUses k))"

section \<open>couponsRouter\<close>

subsection \<open>calculateDiscount\<close>

record calculateDiscountInput =
  cdi_couponCode :: string
  cdi_courseId :: ident
  cdi_originalPrice :: real

definition calculateDiscountSchema :: "calculateDiscountInput \<Rightarrow> bool" where
  "calculateDiscountSchema i = (cuid (cdi_courseId i) \<and> cdi_originalPrice i \<ge> 0)"

record couponSummary =
  cs_code :: string
  cs_name :: string
  cs_discountType :: DiscountType
  cs_discountValue :: real

record calculateDiscountResult =
  cdr_originalPrice :: real
  cdr_discountAmount :: real
  cdr_finalPrice :: real
  cdr_discountPercentage :: real
  cdr_savings :: real
  cdr_coupon :: couponSummary

definition calculateDiscount_body ::
  "db \<Rightarrow> date \<Rightarrow> calculateDiscountInput \<Rightarrow> exn + calculateDiscountResult" where
  "calculateDiscount_body d now i =
     (let couponCode = cdi_couponCode i; courseId = cdi_courseId i;
          originalPrice = cdi_originalPrice i
      in case coupon_findUnique_code d (toUpperCase couponCode) of
           None \<Rightarrow> Inl (Trpc (TRPCError NOT_FOUND ''Coupon not found''))
         | Some validation \<Rightarrow>
             if \<not> cp_isActive validation
             then Inl (Trpc (TRPCError BAD_REQUEST ''Coupon is not active''))
             else if date_gt (cp_validFrom validation) now
             then Inl (Trpc (TRPCError BAD_REQUEST ''Coupon is not yet valid''))
             else if date_lt (cp_validUntil validation) now
             then Inl (Trpc (TRPCError BAD_REQUEST ''Coupon has expired''))
             else if usage_limit_reached validation
             then Inl (Trpc (TRPCError BAD_REQUEST ''Coupon usage limit reached''))
             else if \<not> cp_isGlobal validation
                     \<and> length (courseCoupons_where d validation courseId) = 0
             then Inl (Trpc (TRPCError BAD_REQUEST ''Coupon is not applicable to this course''))
             else
               let discountAmount =
                     (if cp_discountType validation = PERCENTAGE
                      then (originalPrice * cp_discountValue validation) / 100
                      else min (cp_discountValue validation) originalPrice);
                   finalPrice = max 0 (originalPrice - discountAmount);
                   discountPercentage =
                     (if originalPrice > 0 then (discountAmount / originalPrice) * 100 else 0)
               in Inr \<lparr> cdr_originalPrice = originalPrice,
                        cdr_discountAmount = discountAmount,
                        cdr_finalPrice = finalPrice,
                        cdr_discountPercentage = discountPercentage,
                        cdr_savings = discountAmount,
                        cdr_coupon = \<lparr> cs_code = cp_code validation,
                                       cs_name = cp_name validation,
                                       cs_discountType = cp_discountType validation,
                                       cs_discountValue = cp_discountValue validation \<rparr> \<rparr>)"

definition calculateDiscount ::
  "db \<Rightarrow> date \<Rightarrow> calculateDiscountInput \<Rightarrow> TRPCError + calculateDiscountResult" where
  "calculateDiscount d now i =
     (case calculateDiscount_body d now i of
        Inl e \<Rightarrow> Inl (catch ''Failed to calculate discount'' e)
      | Inr r \<Rightarrow> Inr r)"

section \<open>adminCouponsRouter\<close>

subsection \<open>calculateDiscount\<close>

record adminCalculateDiscountInput =
  acdi_couponId :: ident
  acdi_originalPrice :: real

definition adminCalculateDiscountSchema :: "adminCalculateDiscountInput \<Rightarrow> bool" where
  "adminCalculateDiscountSchema i = (cuid (acdi_couponId i) \<and> acdi_originalPrice i \<ge> 0)"

record adminCalculateDiscountResult =
  acdr_originalPrice :: real
  acdr_discountAmount :: real
  acdr_finalPrice :: real
  acdr_discountPercentage :: real

definition adminCalculateDiscount ::
  "db \<Rightarrow> adminCalculateDiscountInput \<Rightarrow> TRPCError + adminCalculateDiscountResult" where
  "adminCalculateDiscount d i =
     (case coupon_findUnique_id d (acdi_couponId i) of
        None \<Rightarrow> Inl (TRPCError NOT_FOUND ''Coupon not found'')
      | Some coupon \<Rightarrow>
          let discountAmount =
                (if cp_discountType coupon = PERCENTAGE
                 then (acdi_originalPrice i * cp_discountValue coupon) / 100
                 else min (cp_discountValue coupon) (acdi_originalPrice i));
              finalPrice = max 0 (acdi_originalPrice i - discountAmount)
          in Inr \<lparr> acdr_originalPrice = acdi_originalPrice i,
                   acdr_discountAmount = discountAmount,
                   acdr_finalPrice = finalPrice,
                   acdr_discountPercentage =
                     (if acdi_originalPrice i > 0
                      then (discountAmount / acdi_originalPrice i) * 100 else 0) \<rparr>)"

subsection \<open>Schemas of createCoupon and updateCoupon\<close>

text \<open>The coupon code must match \<open>/^[A-Z0-9_-]+$/\<close>.\<close>

definition coupon_code_char :: "char \<Rightarrow> bool" where
  "coupon_code_char c = (c \<in> set ''ABCDEFGHIJKLMNOPQRSTUVWXYZ0123456789_-'')"

definition coupon_code_regex :: "string \<Rightarrow> bool" where
  "coupon_code_regex s = (s \<noteq> [] \<and> list_all coupon_code_char s)"

record createCouponInput =
  cci_code :: string
  cci_name :: string
  cci_description :: "string option"
  cci_discountType :: DiscountType
  cci_discountValue :: real
  cci_maxUses :: "int option"
  cci_maxUsesPerUser :: "int option"
  cci_validFrom :: "date option"
  cci_validUntil :: "date option"
  cci_isGlobal :: bool
  cci_courseIds :: "ident list option"
  cci_isActive :: bool

definition opt_all :: "('a \<Rightarrow> bool) \<Rightarrow> 'a option \<Rightarrow> bool" where
  "opt_all P x = (case x of None \<Rightarrow> True | Some v \<Rightarrow> P v)"

definition createCouponSchema :: "createCouponInput \<Rightarrow> bool" where
  "createCouponSchema i =
     (3 \<le> length (cci_code i) \<and> length (cci_code i) \<le> 50 \<and> coupon_code_regex (cci_code i) \<and>
      1 \<le> length (cci_name i) \<and> length (cci_name i) \<le> 200 \<and>
      cci_discountValue i \<ge> 0 \<and>
      opt_all (\<lambda>n. n \<ge> 1) (cci_maxUses i) \<and>
      opt_all (\<lambda>n. n \<ge> 1) (cci_maxUsesPerUser i) \<and>
      opt_all (list_all cuid) (cci_courseIds i) \<and>
      \<not> (cci_discountType i = PERCENTAGE \<and> cci_discountValue i > 100) \<and>
      \<not> (case (cci_validFrom i, cci_validUntil i) of
            (Some f, Some u) \<Rightarrow> f \<ge> u
          | _ \<Rightarrow> False))"

record updateCouponInput =
  uci_id :: ident
  uci_code :: "string option"
  uci_name :: "string option"
  uci_description :: "string option"
  uci_discountType :: "DiscountType option"
  uci_discountValue :: "real option"
  uci_maxUses :: "int option"
  uci_maxUsesPerUser :: "int option"
  uci_validFrom :: "date option"
  uci_validUntil :: "date option"
  uci_isGlobal :: "bool option"
  uci_courseIds :: "ident list option"
  uci_isActive :: "bool option"

text \<open>
  The refinement of the update schema reads
  \<open>data.discountType === 'PERCENTAGE' && data.discountValue && data.discountValue > 100\<close>:
  it looks at the fields of the request only.
\<close>

definition updateCouponSchema :: "updateCouponInput \<Rightarrow> bool" where
  "updateCouponSchema i =
     (cuid (uci_id i) \<and>
      opt_all (\<lambda>c. 3 \<le> length c \<and> length c \<le> 50 \<and> coupon_code_regex c) (uci_code i) \<and>
      opt_all (\<lambda>n. 1 \<le> length n \<and> length n \<le> 200) (uci_name i) \<and>
      opt_all (\<lambda>v. v \<ge> 0) (uci_discountValue i) \<and>
      opt_all (\<lambda>n. n \<ge> 1) (uci_maxUses i) \<and>
      opt_all (\<lambda>n. n \<ge> 1) (uci_maxUsesPerUser i) \<and>
      opt_all (list_all cuid) (uci_courseIds i) \<and>
      \<not> (uci_discountType i = Some PERCENTAGE \<and>
         (case uci_discountValue i of None \<Rightarrow> False | Some v \<Rightarrow> v \<noteq> 0 \<and> v > 100)))"

subsection \<open>Writes used by the handlers\<close>

text \<open>
  \<open>update_first P f xs\<close> is Prisma's \<open>update\<close> on a unique \<open>where\<close>: the row that the
  matching \<open>findUnique\<close> returns is replaced; \<open>None\<close> when there is no such row (Prisma
  throws).
\<close>

fun update_first :: "('a \<Rightarrow> bool) \<Rightarrow> ('a \<Rightarrow> 'a) \<Rightarrow> 'a list \<Rightarrow> 'a list option" where
  "update_first P f [] = None"
| "update_first P f (x # xs) =
     (if P x then Some (f x # xs)
      else case update_first P f xs of None \<Rightarrow> None | Some ys \<Rightarrow> Some (x # ys))"

definition opt_set :: "'a option \<Rightarrow> 'a \<Rightarrow> 'a" where
  "opt_set x old = (case x of None \<Rightarrow> old | Some v \<Rightarrow> v)"

definition opt_set_nullable :: "'a option \<Rightarrow> 'a option \<Rightarrow> 'a option" where
  "opt_set_nullable x old = (case x of None \<Rightarrow> old | Some v \<Rightarrow> Some v)"

definition truthy_str :: "string option \<Rightarrow> bool" where
  "truthy_str x = (case x of None \<Rightarrow> False | Some s \<Rightarrow> s \<noteq> [])"

definition auditLog_create :: "db \<Rightarrow> AuditLog \<Rightarrow> db" where
  "auditLog_create d a = d\<lparr> auditLogs := auditLogs d @ [a] \<rparr>"

definition course_findUnique_id :: "db \<Rightarrow> ident \<Rightarrow> Course option" where
  "course_findUnique_id d i = find (\<lambda>c. co_id c = i) (courses d)"

definition course_findUnique_slug :: "db \<Rightarrow> string \<Rightarrow> Course option" where
  "course_findUnique_slug d s = find (\<lambda>c. co_slug c = s) (courses d)"

subsection \<open>createCoupon\<close>

text \<open>
  The handlers behind \<open>adminProcedure\<close> run with the administrator the middleware has put
  into the context; \<open>adminId\<close> is \<open>ctx.admin.id\<close>. The identifier of a created row is drawn
  by the database (a cuid default); it is passed in as \<open>newId\<close>, as the clock is passed in
  as \<open>now\<close>. A create whose identifier or unique column is taken makes Prisma throw.
\<close>

definition coupon_create :: "db \<Rightarrow> Coupon \<Rightarrow> exn + db" where
  "coupon_create d k =
     (if list_ex (\<lambda>x. cp_id x = cp_id k \<or> cp_code x = cp_code k) (coupons d)
      then Inl PrismaError
      else Inr (d\<lparr> coupons := coupons d @ [k] \<rparr>))"

definition courseCoupon_createMany :: "db \<Rightarrow> CourseCoupon list \<Rightarrow> db" where
  "courseCoupon_createMany d xs = d\<lparr> courseCoupons := courseCoupons d @ xs \<rparr>"

definition createCoupon_body ::
  "db \<Rightarrow> ident \<Rightarrow> ident \<Rightarrow> date \<Rightarrow> createCouponInput \<Rightarrow> (exn + Coupon) \<times> db" where
  "createCoupon_body d adminId newId now i =
     (case coupon_findUnique_code d (cci_code i) of
        Some existingCoupon \<Rightarrow>
          (Inl (Trpc (TRPCError CONFLICT ''A coupon with this code already exists'')), d)
      | None \<Rightarrow>
          let courseIds = (case cci_courseIds i of None \<Rightarrow> [] | Some xs \<Rightarrow> xs) in
          if length courseIds > 0 \<and>
             length (filter (\<lambda>c. co_id c \<in> set courseIds) (courses d)) \<noteq> length courseIds
          then (Inl (Trpc (TRPCError BAD_REQUEST ''One or more courses not found'')), d)
          else
            let coupon = \<lparr> cp_id = newId, cp_code = cci_code i, cp_name = cci_name i,
                  cp_description = cci_description i,
                  cp_discountType = cci_discountType i,
                  cp_discountValue = cci_discountValue i,
                  cp_maxUses = cci_maxUses i,
                  cp_maxUsesPerUser = cci_maxUsesPerUser i,
                  cp_usedCount = 0,
                  cp_validFrom = Some (case cci_validFrom i of None \<Rightarrow> now | Some f \<Rightarrow> f),
                  cp_validUntil = cci_validUntil i,
                  cp_isGlobal = cci_isGlobal i,
                  cp_isActive = cci_isActive i,
                  cp_createdById = adminId \<rparr>
            in case coupon_create d coupon of
                 Inl e \<Rightarrow> (Inl e, d)
               | Inr d1 \<Rightarrow>
                   let d2 = (if length courseIds > 0
                             then courseCoupon_createMany d1
                                    (map (\<lambda>courseId. \<lparr> cc_couponId = cp_id coupon,
                                                       cc_courseId = courseId \<rparr>) courseIds)
                             else d1);
                       d3 = auditLog_create d2
                              \<lparr> al_action = ''CREATE_COUPON'', al_actorId = adminId,
                                al_actorType = ''ADMIN'', al_resourceId = Some (cp_id coupon),
                                al_resourceType = ''COUPON'' \<rparr>
                   in (Inr coupon, d3))"

definition createCoupon ::
  "db \<Rightarrow> ident \<Rightarrow> ident \<Rightarrow> date \<Rightarrow> createCouponInput \<Rightarrow> (TRPCError + Coupon) \<times> db" where
  "createCoupon d adminId newId now i =
     (case createCoupon_body d adminId newId now i of
        (Inl e, d') \<Rightarrow> (Inl (catch ''Failed to create coupon'' e), d')
      | (Inr r, d') \<Rightarrow> (Inr r, d'))"

subsection \<open>updateCoupon\<close>

definition coupon_apply_update :: "updateCouponInput \<Rightarrow> Coupon \<Rightarrow> Coupon" where
  "coupon_apply_update i k =
     k\<lparr> cp_name := opt_set (uci_name i) (cp_name k),
        cp_description := opt_set_nullable (uci_description i) (cp_description k),
        cp_discountType := opt_set (uci_discountType i) (cp_discountType k),
        cp_discountValue := opt_set (uci_discountValue i) (cp_discountValue k),
        cp_maxUses := opt_set_nullable (uci_maxUses i) (cp_maxUses k),
        cp_maxUsesPerUser := opt_set_nullable (uci_maxUsesPerUser i) (cp_maxUsesPerUser k),
        cp_validFrom := opt_set_nullable (uci_validFrom i) (cp_validFrom k),
        cp_validUntil := opt_set_nullable (uci_validUntil i) (cp_validUntil k),
        cp_isGlobal := opt_set (uci_isGlobal i) (cp_isGlobal k),
        cp_isActive := opt_set (uci_isActive i) (cp_isActive k),
        cp_code := (if truthy_str (uci_code i) then the (uci_code i) else cp_code k) \<rparr>"

definition updateCoupon_body ::
  "db \<Rightarrow> ident \<Rightarrow> updateCouponInput \<Rightarrow> (exn + Coupon) \<times> db" where
  "updateCoupon_body d adminId i =
     (let id = uci_id i; code = uci_code i; courseIds = uci_courseIds i in
      case coupon_findUnique_id d id of
        None \<Rightarrow> (Inl (Trpc (TRPCError NOT_FOUND ''Coupon not found'')), d)
      | Some existingCoupon \<Rightarrow>
          if truthy_str code \<and> the code \<noteq> cp_code existingCoupon
             \<and> coupon_findUnique_code d (the code) \<noteq> None
          then (Inl (Trpc (TRPCError CONFLICT ''A coupon with this code already exists'')), d)
          else
            case update_first (\<lambda>k. cp_id k = id) (coupon_apply_update i) (coupons d) of
              None \<Rightarrow> (Inl PrismaError, d)
            | Some ks \<Rightarrow>
                let d1 = d\<lparr> coupons := ks \<rparr>;
                    coupon = coupon_apply_update i existingCoupon;
                    d2 = (case courseIds of
                            None \<Rightarrow> d1
                          | Some cids \<Rightarrow>
                              let d1' = d1\<lparr> courseCoupons :=
                                            filter (\<lambda>x. cc_couponId x \<noteq> id) (courseCoupons d1) \<rparr>
                              in if length cids > 0
                                 then courseCoupon_createMany d1'
                                        (map (\<lambda>courseId. \<lparr> cc_couponId = id,
                                                           cc_courseId = courseId \<rparr>) cids)
                                 else d1');
                    d3 = auditLog_create d2
                           \<lparr> al_action = ''UPDATE_COUPON'', al_actorId = adminId,
                             al_actorType = ''ADMIN'', al_resourceId = Some (cp_id coupon),
                             al_resourceType = ''COUPON'' \<rparr>
                in (Inr coupon, d3))"

definition updateCoupon ::
  "db \<Rightarrow> ident \<Rightarrow> updateCouponInput \<Rightarrow> (TRPCError + Coupon) \<times> db" where
  "updateCoupon d adminId i =
     (case updateCoupon_body d adminId i of
        (Inl e, d') \<Rightarrow> (Inl (catch ''Failed to update coupon'' e), d')
      | (Inr r, d') \<Rightarrow> (Inr r, d'))"

section \<open>couponsRouter, continued\<close>

subsection \<open>applyCoupon\<close>

text \<open>
  The handlers behind \<open>protectedProcedure\<close> run with the signed-in user of the context;
  \<open>userId\<close> is \<open>ctx.user.id\<close>. A mutation returns its result together with the database
  it leaves behind.
\<close>

definition enrollment_findUnique :: "db \<Rightarrow> ident \<Rightarrow> ident \<Rightarrow> Enrollment option" where
  "enrollment_findUnique d userId courseId =
     find (\<lambda>e. en_userId e = userId \<and> en_courseId e = courseId) (enrollments d)"

record applyCouponInput =
  aci_code :: string
  aci_courseId :: ident

definition applyCouponSchema :: "applyCouponInput \<Rightarrow> bool" where
  "applyCouponSchema i = (1 \<le> length (aci_code i) \<and> cuid (aci_courseId i))"

record pricing =
  pr_originalPrice :: real
  pr_discountAmount :: real
  pr_finalPrice :: real
  pr_savings :: real

record applyCouponResult =
  acr_success :: bool
  acr_coupon :: "ident \<times> string \<times> string"
  acr_pricing :: pricing
  acr_course :: "ident \<times> string"

definition applyCoupon_body ::
  "db \<Rightarrow> ident \<Rightarrow> date \<Rightarrow> applyCouponInput \<Rightarrow> (exn + applyCouponResult) \<times> db" where
  "applyCoupon_body d userId now i =
     (let code = aci_code i; courseId = aci_courseId i in
      case coupon_findUnique_code d (toUpperCase code) of
        None \<Rightarrow> (Inl (Trpc (TRPCError NOT_FOUND ''Coupon not found'')), d)
      | Some coupon \<Rightarrow>
          if \<not> cp_isActive coupon
          then (Inl (Trpc (TRPCError BAD_REQUEST ''Coupon is not active'')), d)
          else if date_gt (cp_validFrom coupon) now
          then (Inl (Trpc (TRPCError BAD_REQUEST ''Coupon is not yet valid'')), d)
          else if date_lt (cp_validUntil coupon) now
          then (Inl (Trpc (TRPCError BAD_REQUEST ''Coupon has expired'')), d)
          else if usage_limit_reached coupon
          then (Inl (Trpc (TRPCError BAD_REQUEST ''Coupon usage limit reached'')), d)
          else if truthy_num (cp_maxUsesPerUser coupon)
                  \<and> int (length (couponUsage_where d coupon userId))
                      \<ge> the (cp_maxUsesPerUser coupon)
          then (Inl (Trpc (TRPCError BAD_REQUEST
                  ''You have reached the usage limit for this coupon'')), d)
          else if \<not> cp_isGlobal coupon \<and> length (courseCoupons_where d coupon courseId) = 0
          then (Inl (Trpc (TRPCError BAD_REQUEST
                  ''Coupon is not applicable to this course'')), d)
          else
            case enrollment_findUnique d userId courseId of
              Some existingEnrollment \<Rightarrow>
                (Inl (Trpc (TRPCError CONFLICT ''You are already enrolled in this course'')), d)
            | None \<Rightarrow>
                (case course_findUnique_id d courseId of
                   None \<Rightarrow> (Inl (Trpc (TRPCError NOT_FOUND ''Course not found'')), d)
                 | Some course \<Rightarrow>
                     if co_isFree course
                     then (Inl (Trpc (TRPCError BAD_REQUEST
                             ''Coupons cannot be applied to free courses'')), d)
                     else
                       let originalPrice = co_price course;
                           discountAmount =
                             (if cp_discountType coupon = PERCENTAGE
                              then (originalPrice * cp_discountValue coupon) / 100
                              else min (cp_discountValue coupon) originalPrice);
                           finalPrice = max 0 (originalPrice - discountAmount)
                       in (Inr \<lparr> acr_success = True,
                                 acr_coupon = (cp_id coupon, cp_code coupon, cp_name coupon),
                                 acr_pricing = \<lparr> pr_originalPrice = originalPrice,
                                                 pr_discountAmount = discountAmount,
                                                 pr_finalPrice = finalPrice,
                                                 pr_savings = discountAmount \<rparr>,
                                 acr_course = (co_id course, co_title course) \<rparr>, d)))"

definition applyCoupon ::
  "db \<Rightarrow> ident \<Rightarrow> date \<Rightarrow> applyCouponInput \<Rightarrow> (TRPCError + applyCouponResult) \<times> db" where
  "applyCoupon d userId now i =
     (case applyCoupon_body d userId now i of
        (Inl e, d') \<Rightarrow> (Inl (catch ''Failed to apply coupon'' e), d')
      | (Inr r, d') \<Rightarrow> (Inr r, d'))"

section \<open>studentRouter\<close>

subsection \<open>Writes of the enrollment transaction\<close>

text \<open>
  \<open>Enrollment\<close> is unique per (userId, courseId) by the index
  \<open>Enrollment_userId_courseId_key\<close>; \<open>StudentProgress\<close> and \<open>LessonProgress\<close> are
  addressed through the compound keys \<open>userId_courseId\<close> and \<open>userId_lessonId\<close>, so they
  carry the same kind of index. A create that would break an index makes Prisma throw.
  A new enrollment starts with progress 0 and no completion date.
\<close>

definition enrollment_create :: "db \<Rightarrow> Enrollment \<Rightarrow> exn + db" where
  "enrollment_create d e =
     (if list_ex (\<lambda>x. en_userId x = en_userId e \<and> en_courseId x = en_courseId e) (enrollments d)
      then Inl PrismaError
      else Inr (d\<lparr> enrollments := enrollments d @ [e] \<rparr>))"

definition studentProgress_create :: "db \<Rightarrow> StudentProgress \<Rightarrow> exn + db" where
  "studentProgress_create d p =
     (if list_ex (\<lambda>x. sp_id x = sp_id p \<or> (sp_userId x = sp_userId p \<and> sp_courseId x = sp_courseId p))
           (studentProgresses d)
      then Inl PrismaError
      else Inr (d\<lparr> studentProgresses := studentProgresses d @ [p] \<rparr>))"

fun lessonProgress_createMany :: "db \<Rightarrow> LessonProgress list \<Rightarrow> exn + db" where
  "lessonProgress_createMany d [] = Inr d"
| "lessonProgress_createMany d (p # ps) =
     (if list_ex (\<lambda>x. lp_userId x = lp_userId p \<and> lp_lessonId x = lp_lessonId p)
           (lessonProgresses d)
      then Inl PrismaError
      else lessonProgress_createMany (d\<lparr> lessonProgresses := lessonProgresses d @ [p] \<rparr>) ps)"

definition coupon_increment_usedCount :: "db \<Rightarrow> ident \<Rightarrow> exn + db" where
  "coupon_increment_usedCount d couponId =
     (case update_first (\<lambda>k. cp_id k = couponId)
             (\<lambda>k. k\<lparr> cp_usedCount := cp_usedCount k + 1 \<rparr>) (coupons d) of
        None \<Rightarrow> Inl PrismaError
      | Some ks \<Rightarrow> Inr (d\<lparr> coupons := ks \<rparr>))"

definition couponUsage_create :: "db \<Rightarrow> CouponUsage \<Rightarrow> db" where
  "couponUsage_create d u = d\<lparr> couponUsages := couponUsages d @ [u] \<rparr>"

text \<open>
  \<open>prisma.$transaction\<close> with a callback: the writes of the callback are committed when it
  returns and rolled back when it throws.
\<close>

definition transaction :: "db \<Rightarrow> (db \<Rightarrow> exn + 'a \<times> db) \<Rightarrow> (exn + 'a) \<times> db" where
  "transaction d body = (case body d of Inl e \<Rightarrow> (Inl e, d) | Inr (r, d') \<Rightarrow> (Inr r, d'))"

subsection \<open>enrollCourse\<close>

record enrollCourseInput =
  eci_courseId :: ident
  eci_couponCode :: "string option"

definition enrollCourseSchema :: "enrollCourseInput \<Rightarrow> bool" where
  "enrollCourseSchema i = cuid (eci_courseId i)"

record enrollCourseResult =
  ecr_enrollment :: Enrollment
  ecr_course :: "ident \<times> string \<times> string"
  ecr_appliedCoupon :: "(ident \<times> string \<times> string) option"

definition lessons_of_course :: "db \<Rightarrow> ident \<Rightarrow> Lesson list" where
  "lessons_of_course d courseId =
     sort_key le_order (filter (\<lambda>l. le_courseId l = courseId) (lessons d))"

text \<open>The coupon checks of \<open>enrollCourse\<close>; the result is \<open>appliedCouponId\<close>.\<close>

definition enrollCourse_coupon ::
  "db \<Rightarrow> ident \<Rightarrow> date \<Rightarrow> ident \<Rightarrow> string option \<Rightarrow> exn + ident option" where
  "enrollCourse_coupon d userId now courseId couponCode =
     (if \<not> truthy_str couponCode then Inr None
      else
        case coupon_findUnique_code d (the couponCode) of
          None \<Rightarrow> Inl (Trpc (TRPCError BAD_REQUEST ''Invalid or inactive coupon''))
        | Some coupon \<Rightarrow>
            if \<not> cp_isActive coupon
            then Inl (Trpc (TRPCError BAD_REQUEST ''Invalid or inactive coupon''))
            else if date_gt (cp_validFrom coupon) now
            then Inl (Trpc (TRPCError BAD_REQUEST ''Coupon is not yet valid''))
            else if date_lt (cp_validUntil coupon) now
            then Inl (Trpc (TRPCError BAD_REQUEST ''Coupon has expired''))
            else if usage_limit_reached coupon
            then Inl (Trpc (TRPCError BAD_REQUEST ''Coupon usage limit reached''))
            else if truthy_num (cp_maxUsesPerUser coupon)
                    \<and> int (length (couponUsage_where d coupon userId))
                        \<ge> the (cp_maxUsesPerUser coupon)
            then Inl (Trpc (TRPCError BAD_REQUEST
                   ''You have reached the usage limit for this coupon''))
            else if \<not> cp_isGlobal coupon \<and> length (courseCoupons_where d coupon courseId) = 0
            then Inl (Trpc (TRPCError BAD_REQUEST ''Coupon is not applicable to this course''))
            else Inr (Some (cp_id coupon)))"

text \<open>The callback handed to \<open>$transaction\<close>.\<close>

definition enrollCourse_tx ::
  "ident \<Rightarrow> ident \<Rightarrow> Course \<Rightarrow> Lesson list \<Rightarrow> ident option \<Rightarrow> db
     \<Rightarrow> exn + enrollCourseResult \<times> db" where
  "enrollCourse_tx userId newId course courseLessons appliedCouponId tx =
     (let courseId = co_id course;
          enrollment = \<lparr> en_userId = userId, en_courseId = courseId,
                         en_appliedCouponId = appliedCouponId, en_status = ACTIVE,
                         en_progress = 0, en_completedAt = None \<rparr>
      in case enrollment_create tx enrollment of
           Inl e \<Rightarrow> Inl e
         | Inr tx1 \<Rightarrow>
             let studentProgress = \<lparr> sp_id = newId, sp_userId = userId, sp_courseId = courseId,
                                     sp_totalWatchTime = 0, sp_completionRate = 0,
                                     sp_lastAccessedAt = None \<rparr>
             in case studentProgress_create tx1 studentProgress of
                  Inl e \<Rightarrow> Inl e
                | Inr tx2 \<Rightarrow>
                    (case (if length courseLessons > 0
                           then lessonProgress_createMany tx2
                                  (map (\<lambda>lesson. \<lparr> lp_userId = userId, lp_lessonId = le_id lesson,
                                                    lp_studentProgressId = sp_id studentProgress,
                                                    lp_watchTime = 0, lp_completed = False,
                                                    lp_lastPosition = 0, lp_completedAt = None \<rparr>)
                                       courseLessons)
                           else Inr tx2) of
                       Inl e \<Rightarrow> Inl e
                     | Inr tx3 \<Rightarrow>
                         (case (if truthy_str appliedCouponId
                                then (case coupon_increment_usedCount tx3 (the appliedCouponId) of
                                        Inl e \<Rightarrow> Inl e
                                      | Inr tx4 \<Rightarrow>
                                          Inr (couponUsage_create tx4
                                                 \<lparr> cu_userId = userId,
                                                   cu_couponId = the appliedCouponId,
                                                   cu_courseId = courseId,
                                                   cu_discountAmount = 0 \<rparr>))
                                else Inr tx3) of
                            Inl e \<Rightarrow> Inl e
                          | Inr tx5 \<Rightarrow>
                              Inr (\<lparr> ecr_enrollment = enrollment,
                                     ecr_course = (co_id course, co_title course, co_slug course),
                                     ecr_appliedCoupon =
                                       (case appliedCouponId of
                                          None \<Rightarrow> None
                                        | Some cid \<Rightarrow>
                                            map_option (\<lambda>k. (cp_id k, cp_code k, cp_name k))
                                              (coupon_findUnique_id tx5 cid)) \<rparr>, tx5))))"

definition enrollCourse_body ::
  "db \<Rightarrow> ident \<Rightarrow> ident \<Rightarrow> date \<Rightarrow> enrollCourseInput \<Rightarrow> (exn + enrollCourseResult) \<times> db" where
  "enrollCourse_body d userId newId now i =
     (let courseId = eci_courseId i; couponCode = eci_couponCode i in
      case enrollment_findUnique d userId courseId of
        Some existingEnrollment \<Rightarrow>
          (Inl (Trpc (TRPCError CONFLICT ''You are already enrolled in this course'')), d)
      | None \<Rightarrow>
          (case course_findUnique_id d courseId of
             None \<Rightarrow> (Inl (Trpc (TRPCError NOT_FOUND ''Course not found'')), d)
           | Some course \<Rightarrow>
               if \<not> co_published course
               then (Inl (Trpc (TRPCError BAD_REQUEST
                       ''Course is not available for enrollment'')), d)
               else
                 case enrollCourse_coupon d userId now courseId couponCode of
                   Inl e \<Rightarrow> (Inl e, d)
                 | Inr appliedCouponId \<Rightarrow>
                     transaction d
                       (enrollCourse_tx userId newId course (lessons_of_course d courseId)
                          appliedCouponId)))"

definition enrollCourse ::
  "db \<Rightarrow> ident \<Rightarrow> ident \<Rightarrow> date \<Rightarrow> enrollCourseInput
     \<Rightarrow> (TRPCError + enrollCourseResult) \<times> db" where
  "enrollCourse d userId newId now i =
     (case enrollCourse_body d userId newId now i of
        (Inl e, d') \<Rightarrow> (Inl (catch ''Failed to enroll in course'' e), d')
      | (Inr r, d') \<Rightarrow> (Inr r, d'))"

subsection \<open>Lesson progress\<close>

definition lesson_findUnique :: "db \<Rightarrow> ident \<Rightarrow> Lesson option" where
  "lesson_findUnique d i = find (\<lambda>l. le_id l = i) (lessons d)"

definition studentProgress_findUnique :: "db \<Rightarrow> ident \<Rightarrow> ident \<Rightarrow> StudentProgress option" where
  "studentProgress_findUnique d userId courseId =
     find (\<lambda>p. sp_userId p = userId \<and> sp_courseId p = courseId) (studentProgresses d)"

text \<open>
  The enrollments a lesson query includes through its course
  (\<open>course: { include: { enrollments: { where: { userId } } } }\<close>): the rows of the
  lesson's course for this user. The course row itself exists by the foreign key
  \<open>Lesson_courseId_fkey\<close>.
\<close>

definition enrollments_where :: "db \<Rightarrow> ident \<Rightarrow> ident \<Rightarrow> Enrollment list" where
  "enrollments_where d courseId userId =
     filter (\<lambda>e. en_courseId e = courseId \<and> en_userId e = userId) (enrollments d)"

text \<open>The relation filter \<open>lesson: { courseId }\<close> on a lesson-progress row.\<close>

definition lesson_in_course :: "db \<Rightarrow> ident \<Rightarrow> LessonProgress \<Rightarrow> bool" where
  "lesson_in_course d courseId p =
     list_ex (\<lambda>l. le_id l = lp_lessonId p \<and> le_courseId l = courseId) (lessons d)"

text \<open>Prisma's \<open>upsert\<close> on a unique \<open>where\<close>: the row it returns, and the table after it.\<close>

fun upsert_first :: "('a \<Rightarrow> bool) \<Rightarrow> ('a \<Rightarrow> 'a) \<Rightarrow> 'a \<Rightarrow> 'a list \<Rightarrow> 'a \<times> 'a list" where
  "upsert_first P f c [] = (c, [c])"
| "upsert_first P f c (x # xs) =
     (if P x then (f x, f x # xs)
      else case upsert_first P f c xs of (r, ys) \<Rightarrow> (r, x # ys))"

definition lessonProgress_upsert ::
  "db \<Rightarrow> ident \<Rightarrow> ident \<Rightarrow> (LessonProgress \<Rightarrow> LessonProgress) \<Rightarrow> LessonProgress
     \<Rightarrow> LessonProgress \<times> db" where
  "lessonProgress_upsert d userId lessonId upd cr =
     (case upsert_first (\<lambda>p. lp_userId p = userId \<and> lp_lessonId p = lessonId) upd cr
             (lessonProgresses d) of
        (r, ps) \<Rightarrow> (r, d\<lparr> lessonProgresses := ps \<rparr>))"

subsection \<open>updateCourseProgress\<close>

definition totalLessons :: "db \<Rightarrow> ident \<Rightarrow> nat" where
  "totalLessons d courseId = length (filter (\<lambda>l. le_courseId l = courseId) (lessons d))"

definition completedLessons :: "db \<Rightarrow> ident \<Rightarrow> ident \<Rightarrow> nat" where
  "completedLessons d userId courseId =
     length (filter (\<lambda>p. lp_userId p = userId \<and> lesson_in_course d courseId p \<and> lp_completed p)
               (lessonProgresses d))"

definition totalWatchTime :: "db \<Rightarrow> ident \<Rightarrow> ident \<Rightarrow> int" where
  "totalWatchTime d userId courseId =
     sum_list (map lp_watchTime
       (filter (\<lambda>p. lp_userId p = userId \<and> lesson_in_course d courseId p) (lessonProgresses d)))"

definition updateCourseProgress :: "db \<Rightarrow> date \<Rightarrow> ident \<Rightarrow> ident \<Rightarrow> exn + db" where
  "updateCourseProgress d now userId courseId =
     (let total = totalLessons d courseId;
          completed = completedLessons d userId courseId;
          watch = totalWatchTime d userId courseId;
          completionRate = (if total > 0 then (real completed / real total) * 100 else 0)
      in case update_first (\<lambda>p. sp_userId p = userId \<and> sp_courseId p = courseId)
                (\<lambda>p. p\<lparr> sp_completionRate := completionRate, sp_totalWatchTime := watch \<rparr>)
                (studentProgresses d) of
           None \<Rightarrow> Inl PrismaError
         | Some sps \<Rightarrow>
             let d1 = d\<lparr> studentProgresses := sps \<rparr> in
             case update_first (\<lambda>e. en_userId e = userId \<and> en_courseId e = courseId)
                    (\<lambda>e. e\<lparr> en_progress := completionRate,
                            en_completedAt := (if completionRate = 100 then Some now
                                               else en_completedAt e) \<rparr>)
                    (enrollments d1) of
               None \<Rightarrow> Inl PrismaError
             | Some es \<Rightarrow> Inr (d1\<lparr> enrollments := es \<rparr>))"

subsection \<open>updateLessonProgress\<close>

record updateProgressInput =
  upi_lessonId :: ident
  upi_watchTime :: int
  upi_lastPosition :: int
  upi_completed :: "bool option"

definition updateProgressSchema :: "updateProgressInput \<Rightarrow> bool" where
  "updateProgressSchema i =
     (cuid (upi_lessonId i) \<and> upi_watchTime i \<ge> 0 \<and> upi_lastPosition i \<ge> 0)"

definition updateLessonProgress_body ::
  "db \<Rightarrow> ident \<Rightarrow> date \<Rightarrow> updateProgressInput \<Rightarrow> (exn + LessonProgress) \<times> db" where
  "updateLessonProgress_body d userId now i =
     (let lessonId = upi_lessonId i; watchTime = upi_watchTime i;
          lastPosition = upi_lastPosition i; completed = upi_completed i in
      case lesson_findUnique d lessonId of
        None \<Rightarrow> (Inl (Trpc (TRPCError NOT_FOUND ''Lesson not found'')), d)
      | Some lesson \<Rightarrow>
          (case enrollments_where d (le_courseId lesson) userId of
             [] \<Rightarrow> (Inl (Trpc (TRPCError FORBIDDEN
                      ''You must be enrolled in this course to track progress'')), d)
           | enrollment # _ \<Rightarrow>
               (case studentProgress_findUnique d userId (le_courseId lesson) of
                  None \<Rightarrow> (Inl (Trpc (TRPCError NOT_FOUND
                             ''Student progress record not found'')), d)
                | Some studentProgress \<Rightarrow>
                    let firstCompletion =
                          (completed = Some True \<and>
                           find (\<lambda>p. lp_userId p = userId \<and> lp_lessonId p = lessonId
                                      \<and> lp_completed p) (lessonProgresses d) = None);
                        upd = (\<lambda>p. p\<lparr> lp_watchTime := max watchTime 0,
                                      lp_lastPosition := lastPosition,
                                      lp_completed := opt_set completed (lp_completed p),
                                      lp_completedAt := (if firstCompletion then Some now
                                                         else lp_completedAt p) \<rparr>);
                        cr = \<lparr> lp_userId = userId, lp_lessonId = lessonId,
                               lp_studentProgressId = sp_id studentProgress,
                               lp_watchTime = max watchTime 0,
                               lp_completed = (completed = Some True),
                               lp_lastPosition = lastPosition,
                               lp_completedAt = (if completed = Some True then Some now
                                                 else None) \<rparr>
                    in case lessonProgress_upsert d userId lessonId upd cr of
                         (lessonProgress, d1) \<Rightarrow>
                           (case updateCourseProgress d1 now userId (le_courseId lesson) of
                              Inl e \<Rightarrow> (Inl e, d1)
                            | Inr d2 \<Rightarrow>
                                (case update_first (\<lambda>p. sp_id p = sp_id studentProgress)
                                        (\<lambda>p. p\<lparr> sp_lastAccessedAt := Some now \<rparr>)
                                        (studentProgresses d2) of
                                   None \<Rightarrow> (Inl PrismaError, d2)
                                 | Some sps \<Rightarrow>
                                     (Inr lessonProgress, d2\<lparr> studentProgresses := sps \<rparr>))))))"

definition updateLessonProgress ::
  "db \<Rightarrow> ident \<Rightarrow> date \<Rightarrow> updateProgressInput \<Rightarrow> (TRPCError + LessonProgress) \<times> db" where
  "updateLessonProgress d userId now i =
     (case updateLessonProgress_body d userId now i of
        (Inl e, d') \<Rightarrow> (Inl (catch ''Failed to update lesson progress'' e), d')
      | (Inr r, d') \<Rightarrow> (Inr r, d'))"

subsection \<open>markLessonComplete\<close>

record markLessonCompleteInput =
  mci_lessonId :: ident
  mci_watchTime :: int

definition markLessonCompleteSchema :: "markLessonCompleteInput \<Rightarrow> bool" where
  "markLessonCompleteSchema i = (cuid (mci_lessonId i) \<and> mci_watchTime i \<ge> 0)"

text \<open>The earlier required lessons of the course that the user has not completed.\<close>

definition uncompletedRequired :: "db \<Rightarrow> ident \<Rightarrow> Lesson \<Rightarrow> Lesson list" where
  "uncompletedRequired d userId lesson =
     filter (\<lambda>l. filter (\<lambda>p. lp_lessonId p = le_id l \<and> lp_userId p = userId \<and> lp_completed p)
                   (lessonProgresses d) = [])
       (filter (\<lambda>l. le_courseId l = le_courseId lesson \<and> le_order l < le_order lesson
                    \<and> le_isRequired l) (lessons d))"

definition markLessonComplete_body ::
  "db \<Rightarrow> ident \<Rightarrow> date \<Rightarrow> markLessonCompleteInput \<Rightarrow> (exn + LessonProgress) \<times> db" where
  "markLessonComplete_body d userId now i =
     (let lessonId = mci_lessonId i; watchTime = mci_watchTime i in
      case lesson_findUnique d lessonId of
        None \<Rightarrow> (Inl (Trpc (TRPCError NOT_FOUND ''Lesson not found'')), d)
      | Some lesson \<Rightarrow>
          if length (enrollments_where d (le_courseId lesson) userId) = 0
          then (Inl (Trpc (TRPCError FORBIDDEN ''You must be enrolled in this course'')), d)
          else if le_isRequired lesson \<and> length (uncompletedRequired d userId lesson) > 0
          then (Inl (Trpc (TRPCError BAD_REQUEST
                  ''You must complete all previous required lessons first'')), d)
          else
            case studentProgress_findUnique d userId (le_courseId lesson) of
              None \<Rightarrow> (Inl PrismaError, d)
            | Some studentProgress \<Rightarrow>
                let upd = (\<lambda>p. p\<lparr> lp_completed := True, lp_completedAt := Some now,
                                  lp_watchTime := max watchTime 0 \<rparr>);
                    cr = \<lparr> lp_userId = userId, lp_lessonId = lessonId,
                           lp_studentProgressId = sp_id studentProgress,
                           lp_watchTime = max watchTime 0,
                           lp_completed = True,
                           lp_lastPosition = 0,
                           lp_completedAt = Some now \<rparr>
                in case lessonProgress_upsert d userId lessonId upd cr of
                     (lessonProgress, d1) \<Rightarrow>
                       (case updateCourseProgress d1 now userId (le_courseId lesson) of
                          Inl e \<Rightarrow> (Inl e, d1)
                        | Inr d2 \<Rightarrow> (Inr lessonProgress, d2)))"

definition markLessonComplete ::
  "db \<Rightarrow> ident \<Rightarrow> date \<Rightarrow> markLessonCompleteInput \<Rightarrow> (TRPCError + LessonProgress) \<times> db" where
  "markLessonComplete d userId now i =
     (case markLessonComplete_body d userId now i of
        (Inl e, d') \<Rightarrow> (Inl (catch ''Failed to mark lesson as complete'' e), d')
      | (Inr r, d') \<Rightarrow> (Inr r, d'))"

section \<open>adminCategoriesRouter\<close>

subsection \<open>deleteCategory\<close>

text \<open>
  \<open>deleteCategory\<close> sits behind \<open>superAdminProcedure\<close>; the handler runs with the super
  administrator of the context.
\<close>

definition category_findUnique :: "db \<Rightarrow> ident \<Rightarrow> Category option" where
  "category_findUnique d i = find (\<lambda>c. ca_id c = i) (categories d)"

definition category_courses :: "db \<Rightarrow> ident \<Rightarrow> Course list" where
  "category_courses d i = filter (\<lambda>c. co_categoryId c = i) (courses d)"

fun delete_first :: "('a \<Rightarrow> bool) \<Rightarrow> 'a list \<Rightarrow> 'a list option" where
  "delete_first P [] = None"
| "delete_first P (x # xs) =
     (if P x then Some xs
      else case delete_first P xs of None \<Rightarrow> None | Some ys \<Rightarrow> Some (x # ys))"

definition deleteCategory_body :: "db \<Rightarrow> ident \<Rightarrow> ident \<Rightarrow> (exn + bool) \<times> db" where
  "deleteCategory_body d adminId inputId =
     (case category_findUnique d inputId of
        None \<Rightarrow> (Inl (Trpc (TRPCError NOT_FOUND ''Category not found'')), d)
      | Some category \<Rightarrow>
          if length (category_courses d inputId) > 0
          then (Inl (Trpc (TRPCError CONFLICT
                  ''Cannot delete category with existing courses. Move courses to another category first.'')), d)
          else
            case delete_first (\<lambda>c. ca_id c = inputId) (categories d) of
              None \<Rightarrow> (Inl PrismaError, d)
            | Some cs \<Rightarrow>
                let d1 = d\<lparr> categories := cs \<rparr>;
                    d2 = auditLog_create d1
                           \<lparr> al_action = ''DELETE_CATEGORY'', al_actorId = adminId,
                             al_actorType = ''ADMIN'', al_resourceId = Some inputId,
                             al_resourceType = ''CATEGORY'' \<rparr>
                in (Inr True, d2))"

definition deleteCategory :: "db \<Rightarrow> ident \<Rightarrow> ident \<Rightarrow> (TRPCError + bool) \<times> db" where
  "deleteCategory d adminId inputId =
     (case deleteCategory_body d adminId inputId of
        (Inl e, d') \<Rightarrow> (Inl (catch ''Failed to delete category'' e), d')
      | (Inr r, d') \<Rightarrow> (Inr r, d'))"

section \<open>adminCoursesRouter\<close>

subsection \<open>updateCourse\<close>

record updateCourseInput =
  uco_id :: ident
  uco_title :: "string option"
  uco_slug :: "string option"
  uco_description :: "string option"
  uco_price :: "real option"
  uco_difficulty :: "Difficulty option"
  uco_categoryId :: "ident option"
  uco_language :: "string option"
  uco_isFree :: "bool option"
  uco_published :: "bool option"
  uco_featured :: "bool option"
  uco_thumbnail :: "string option"
  uco_coverImage :: "string option"

text \<open>The string formats of the schema (\<open>url()\<close>, the slug pattern) are not part of the
  model; the lengths and bounds are.\<close>

definition updateCourseSchema :: "updateCourseInput \<Rightarrow> bool" where
  "updateCourseSchema i =
     (cuid (uco_id i) \<and>
      opt_all (\<lambda>t. 1 \<le> length t \<and> length t \<le> 200) (uco_title i) \<and>
      opt_all (\<lambda>t. 1 \<le> length t \<and> length t \<le> 200) (uco_slug i) \<and>
      opt_all (\<lambda>t. 1 \<le> length t) (uco_description i) \<and>
      opt_all (\<lambda>p. p \<ge> 0) (uco_price i) \<and>
      opt_all cuid (uco_categoryId i))"

definition course_apply_update :: "updateCourseInput \<Rightarrow> Course \<Rightarrow> Course" where
  "course_apply_update i c =
     c\<lparr> co_title := opt_set (uco_title i) (co_title c),
        co_description := opt_set (uco_description i) (co_description c),
        co_price := opt_set (uco_price i) (co_price c),
        co_difficulty := opt_set (uco_difficulty i) (co_difficulty c),
        co_categoryId := opt_set (uco_categoryId i) (co_categoryId c),
        co_language := opt_set (uco_language i) (co_language c),
        co_isFree := opt_set (uco_isFree i) (co_isFree c),
        co_published := opt_set (uco_published i) (co_published c),
        co_featured := opt_set (uco_featured i) (co_featured c),
        co_thumbnail := opt_set_nullable (uco_thumbnail i) (co_thumbnail c),
        co_coverImage := opt_set_nullable (uco_coverImage i) (co_coverImage c),
        co_slug := (if truthy_str (uco_slug i) then the (uco_slug i) else co_slug c) \<rparr>"

definition updateCourse_body :: "db \<Rightarrow> ident \<Rightarrow> updateCourseInput \<Rightarrow> (exn + Course) \<times> db" where
  "updateCourse_body d adminId i =
     (let id = uco_id i; slug = uco_slug i in
      case course_findUnique_id d id of
        None \<Rightarrow> (Inl (Trpc (TRPCError NOT_FOUND ''Course not found'')), d)
      | Some existingCourse \<Rightarrow>
          if truthy_str slug \<and> the slug \<noteq> co_slug existingCourse
             \<and> course_findUnique_slug d (the slug) \<noteq> None
          then (Inl (Trpc (TRPCError CONFLICT ''A course with this slug already exists'')), d)
          else
            case update_first (\<lambda>c. co_id c = id) (course_apply_update i) (courses d) of
              None \<Rightarrow> (Inl PrismaError, d)
            | Some cs \<Rightarrow>
                let d1 = d\<lparr> courses := cs \<rparr>;
                    course = course_apply_update i existingCourse;
                    d2 = auditLog_create d1
                           \<lparr> al_action = ''UPDATE_COURSE'', al_actorId = adminId,
                             al_actorType = ''ADMIN'', al_resourceId = Some (co_id course),
                             al_resourceType = ''COURSE'' \<rparr>
                in (Inr course, d2))"

definition updateCourse :: "db \<Rightarrow> ident \<Rightarrow> updateCourseInput \<Rightarrow> (TRPCError + Course) \<times> db" where
  "updateCourse d adminId i =
     (case updateCourse_body d adminId i of
        (Inl e, d') \<Rightarrow> (Inl (catch ''Failed to update course'' e), d')
      | (Inr r, d') \<Rightarrow> (Inr r, d'))"

section \<open>uploadRouter\<close>

subsection \<open>publishCourse\<close>

record publishCourseInput =
  pci_courseId :: ident
  pci_published :: bool

definition publishCourseSchema :: "publishCourseInput \<Rightarrow> bool" where
  "publishCourseSchema i = cuid (pci_courseId i)"

fun string_of_nat :: "nat \<Rightarrow> string" where
  "string_of_nat n =
     (if n < 10 then [''0123456789'' ! n]
      else string_of_nat (n div 10) @ [''0123456789'' ! (n mod 10)])"

fun join :: "string \<Rightarrow> string list \<Rightarrow> string" where
  "join sep [] = []"
| "join sep [x] = x"
| "join sep (x # y # ys) = x @ sep @ join sep (y # ys)"

text \<open>The lessons of a course whose \<open>videoUrl\<close> is \<open>null\<close> or empty.\<close>

definition lessonsWithoutVideos :: "db \<Rightarrow> ident \<Rightarrow> Lesson list" where
  "lessonsWithoutVideos d courseId =
     filter (\<lambda>lesson. \<not> truthy_str (le_videoUrl lesson))
       (filter (\<lambda>l. le_courseId l = courseId) (lessons d))"

definition validationErrors :: "db \<Rightarrow> Course \<Rightarrow> string list" where
  "validationErrors d course =
     (if co_title course = [] \<or> co_description course = []
      then [''Course must have title and description''] else []) @
     (if \<not> truthy_str (co_thumbnail course)
      then [''Course must have a thumbnail''] else []) @
     (if length (filter (\<lambda>l. le_courseId l = co_id course) (lessons d)) = 0
      then [''Course must have at least one lesson''] else []) @
     (if \<not> co_isFree course \<and> co_price course \<le> 0
      then [''Paid course must have a price greater than 0''] else []) @
     (if length (lessonsWithoutVideos d (co_id course)) > 0
      then [string_of_nat (length (lessonsWithoutVideos d (co_id course)))
              @ '' lessons are missing videos''] else [])"

definition publishCourse_body ::
  "db \<Rightarrow> ident \<Rightarrow> publishCourseInput \<Rightarrow> (exn + Course \<times> string) \<times> db" where
  "publishCourse_body d adminId i =
     (let courseId = pci_courseId i; published = pci_published i in
      case course_findUnique_id d courseId of
        None \<Rightarrow> (Inl (Trpc (TRPCError NOT_FOUND ''Course not found'')), d)
      | Some course \<Rightarrow>
          if published \<and> length (validationErrors d course) > 0
          then (Inl (Trpc (TRPCError BAD_REQUEST
                  (''Course is not ready for publishing: ''
                     @ join '', '' (validationErrors d course)))), d)
          else
            case update_first (\<lambda>c. co_id c = courseId) (\<lambda>c. c\<lparr> co_published := published \<rparr>)
                   (courses d) of
              None \<Rightarrow> (Inl PrismaError, d)
            | Some cs \<Rightarrow>
                let d1 = d\<lparr> courses := cs \<rparr>;
                    updatedCourse = course\<lparr> co_published := published \<rparr>;
                    d2 = auditLog_create d1
                           \<lparr> al_action = (if published then ''PUBLISH_COURSE''
                                           else ''UNPUBLISH_COURSE''),
                             al_actorId = adminId,
                             al_actorType = ''ADMIN'', al_resourceId = Some courseId,
                             al_resourceType = ''COURSE'' \<rparr>
                in (Inr (updatedCourse,
                         if published then ''Course published successfully!''
                         else ''Course unpublished successfully!''), d2))"

definition publishCourse ::
  "db \<Rightarrow> ident \<Rightarrow> publishCourseInput \<Rightarrow> (TRPCError + Course \<times> string) \<times> db" where
  "publishCourse d adminId i =
     (case publishCourse_body d adminId i of
        (Inl e, d') \<Rightarrow> (Inl (catch ''Failed to update course publication status'' e), d')
      | (Inr r, d') \<Rightarrow> (Inr r, d'))"

section \<open>Example data\<close>

text \<open>
  A small database used to run the procedures: one administrator, one student, two
  categories, a paid course with two lessons (the second one without a video), a free course
  without lessons, a percentage coupon with both usage caps and a fixed-amount coupon.
\<close>

definition ex_user :: ident where
  "ex_user = ''cuser0001''"

definition ex_admin :: ident where
  "ex_admin = ''cadmin001''"

definition ex_coupon :: Coupon where
  "ex_coupon = \<lparr> cp_id = ''ccoupon01'', cp_code = ''WELCOME20'', cp_name = ''Welcome'',
     cp_description = None, cp_discountType = PERCENTAGE, cp_discountValue = 20,
     cp_maxUses = Some 100, cp_maxUsesPerUser = Some 1, cp_usedCount = 3,
     cp_validFrom = Some 1000, cp_validUntil = None, cp_isGlobal = True, cp_isActive = True,
     cp_createdById = ''cadmin001'' \<rparr>"

definition ex_coupon_fixed :: Coupon where
  "ex_coupon_fixed = \<lparr> cp_id = ''ccoupon02'', cp_code = ''FLAT50'', cp_name = ''Flat'',
     cp_description = None, cp_discountType = FIXED_AMOUNT, cp_discountValue = 50,
     cp_maxUses = None, cp_maxUsesPerUser = None, cp_usedCount = 0,
     cp_validFrom = Some 1000, cp_validUntil = None, cp_isGlobal = True, cp_isActive = True,
     cp_createdById = ''cadmin001'' \<rparr>"

definition ex_course :: Course where
  "ex_course = \<lparr> co_id = ''ccourse01'', co_slug = ''football'', co_title = ''Football'',
     co_description = ''Basics'', co_price = 200, co_difficulty = BEGINNER,
     co_categoryId = ''ccategory1'', co_creatorId = ''cprof0001'', co_language = ''en'',
     co_isFree = False, co_published = True, co_featured = False,
     co_thumbnail = Some ''https://cdn.example/t.png'', co_coverImage = None \<rparr>"

definition ex_course_empty :: Course where
  "ex_course_empty = \<lparr> co_id = ''ccourse02'', co_slug = ''tennis'', co_title = ''Tennis'',
     co_description = ''Soon'', co_price = 0, co_difficulty = BEGINNER,
     co_categoryId = ''ccategory1'', co_creatorId = ''cprof0001'', co_language = ''en'',
     co_isFree = True, co_published = True, co_featured = False,
     co_thumbnail = None, co_coverImage = None \<rparr>"

definition ex_lesson1 :: Lesson where
  "ex_lesson1 = \<lparr> le_id = ''clesson01'', le_courseId = ''ccourse01'', le_order = 1,
     le_videoUrl = Some ''https://cdn.example/v1.mp4'', le_isRequired = True \<rparr>"

definition ex_lesson2 :: Lesson where
  "ex_lesson2 = \<lparr> le_id = ''clesson02'', le_courseId = ''ccourse01'', le_order = 2,
     le_videoUrl = None, le_isRequired = True \<rparr>"

definition ex_db :: db where
  "ex_db = \<lparr> coupons = [ex_coupon, ex_coupon_fixed], courseCoupons = [], couponUsages = [],
     enrollments = [], courses = [ex_course, ex_course_empty],
     lessons = [ex_lesson2, ex_lesson1], studentProgresses = [], lessonProgresses = [],
     categories = [\<lparr> ca_id = ''ccategory1'', ca_name = ''Sport'', ca_slug = ''sport'' \<rparr>,
                   \<lparr> ca_id = ''ccategory2'', ca_name = ''Chess'', ca_slug = ''chess'' \<rparr>],
     auditLogs = [] \<rparr>"

text \<open>The student enrolled in both courses, nothing watched yet.\<close>

definition ex_enrollment :: "ident \<Rightarrow> Enrollment" where
  "ex_enrollment courseId = \<lparr> en_userId = ''cuser0001'', en_courseId = courseId,
     en_appliedCouponId = None, en_status = ACTIVE, en_progress = 0, en_completedAt = None \<rparr>"

definition ex_studentProgress :: "ident \<Rightarrow> ident \<Rightarrow> StudentProgress" where
  "ex_studentProgress pid courseId = \<lparr> sp_id = pid, sp_userId = ''cuser0001'',
     sp_courseId = courseId, sp_totalWatchTime = 0, sp_completionRate = 0,
     sp_lastAccessedAt = None \<rparr>"

definition ex_lessonProgress :: "ident \<Rightarrow> LessonProgress" where
  "ex_lessonProgress lessonId = \<lparr> lp_userId = ''cuser0001'', lp_lessonId = lessonId,
     lp_studentProgressId = ''cprogress1'', lp_watchTime = 0, lp_completed = False,
     lp_lastPosition = 0, lp_completedAt = None \<rparr>"

definition ex_db_enrolled :: db where
  "ex_db_enrolled = ex_db\<lparr>
     enrollments := [ex_enrollment ''ccourse01'', ex_enrollment ''ccourse02''],
     studentProgresses := [ex_studentProgress ''cprogress1'' ''ccourse01'',
                           ex_studentProgress ''cprogress2'' ''ccourse02''],
     lessonProgresses := [ex_lessonProgress ''clesson01'', ex_lessonProgress ''clesson02''] \<rparr>"

text \<open>A progress row left behind for a student who is not enrolled.\<close>

definition ex_db_stale :: db where
  "ex_db_stale = ex_db\<lparr> studentProgresses := [ex_studentProgress ''cprogress1'' ''ccourse01''] \<rparr>"

text \<open>The percentage coupon used up: \<open>usedCount\<close> has reached \<open>maxUses\<close>.\<close>

definition ex_db_capped :: db where
  "ex_db_capped = ex_db\<lparr> coupons := [ex_coupon\<lparr> cp_usedCount := 100 \<rparr>, ex_coupon_fixed] \<rparr>"

definition ex_db_capped_enrolled :: db where
  "ex_db_capped_enrolled =
     ex_db_enrolled\<lparr> coupons := [ex_coupon\<lparr> cp_usedCount := 100 \<rparr>, ex_coupon_fixed] \<rparr>"

text \<open>The student has used the percentage coupon once, which is its cap per user.\<close>

definition ex_db_used :: db where
  "ex_db_used = ex_db\<lparr> couponUsages := [\<lparr> cu_userId = ''cuser0001'', cu_couponId = ''ccoupon01'',
                                          cu_courseId = ''ccourse02'', cu_discountAmount = 0 \<rparr>] \<rparr>"

text \<open>
  A third course with a lesson of its own, and a class of two students: the first student
  is enrolled in all three courses and has completed the lesson of the third course, the
  second student is enrolled in the paid course and has completed its first lesson.
\<close>

definition ex_course_other :: Course where
  "ex_course_other = \<lparr> co_id = ''ccourse03'', co_slug = ''rowing'', co_title = ''Rowing'',
     co_description = ''Strokes'', co_price = 80, co_difficulty = ADVANCED,
     co_categoryId = ''ccategory1'', co_creatorId = ''cprof0001'', co_language = ''en'',
     co_isFree = False, co_published = True, co_featured = False,
     co_thumbnail = None, co_coverImage = None \<rparr>"

definition ex_lesson3 :: Lesson where
  "ex_lesson3 = \<lparr> le_id = ''clesson03'', le_courseId = ''ccourse03'', le_order = 1,
     le_videoUrl = Some ''https://cdn.example/v3.mp4'', le_isRequired = True \<rparr>"

definition ex_db_multi :: db where
  "ex_db_multi = ex_db\<lparr> courses := [ex_course, ex_course_empty, ex_course_other],
                          lessons := [ex_lesson2, ex_lesson3, ex_lesson1] \<rparr>"

definition ex_db_class :: db where
  "ex_db_class = ex_db_multi\<lparr>
     enrollments := [ex_enrollment ''ccourse01'', ex_enrollment ''ccourse02'',
                     (ex_enrollment ''ccourse03'')\<lparr> en_progress := 100 \<rparr>,
                     (ex_enrollment ''ccourse01'')\<lparr> en_userId := ''cuser0002'',
                                                    en_progress := 50 \<rparr>],
     studentProgresses :=
       [ex_studentProgress ''cprogress1'' ''ccourse01'',
        ex_studentProgress ''cprogress2'' ''ccourse02'',
        (ex_studentProgress ''cprogress3'' ''ccourse03'')\<lparr> sp_completionRate := 100 \<rparr>,
        (ex_studentProgress ''cprogress4'' ''ccourse01'')\<lparr> sp_userId := ''cuser0002'',
                                                            sp_completionRate := 50 \<rparr>],
     lessonProgresses :=
       [ex_lessonProgress ''clesson01'', ex_lessonProgress ''clesson02'',
        (ex_lessonProgress ''clesson03'')\<lparr> lp_studentProgressId := ''cprogress3'',
                                            lp_completed := True,
                                            lp_completedAt := Some 4000 \<rparr>,
        (ex_lessonProgress ''clesson01'')\<lparr> lp_userId := ''cuser0002'',
                                            lp_studentProgressId := ''cprogress4'',
                                            lp_completed := True,
                                            lp_completedAt := Some 4000 \<rparr>,
        (ex_lessonProgress ''clesson02'')\<lparr> lp_userId := ''cuser0002'',
                                            lp_studentProgressId := ''cprogress4'' \<rparr>] \<rparr>"

text \<open>The paid course still a draft.\<close>

definition ex_db_draft :: db where
  "ex_db_draft = ex_db\<lparr> courses := [ex_course\<lparr> co_published := False \<rparr>, ex_course_empty] \<rparr>"

text \<open>Requests.\<close>

definition ex_enroll_with_coupon :: enrollCourseInput where
  "ex_enroll_with_coupon = \<lparr> eci_courseId = ''ccourse01'', eci_couponCode = Some ''WELCOME20'' \<rparr>"

definition ex_apply :: applyCouponInput where
  "ex_apply = \<lparr> aci_code = ''welcome20'', aci_courseId = ''ccourse01'' \<rparr>"

definition ex_none_update :: updateCouponInput where
  "ex_none_update = \<lparr> uci_id = ''ccoupon01'', uci_code = None, uci_name = None,
     uci_description = None, uci_discountType = None, uci_discountValue = None,
     uci_maxUses = None, uci_maxUsesPerUser = None, uci_validFrom = None,
     uci_validUntil = None, uci_isGlobal = None, uci_courseIds = None, uci_isActive = None \<rparr>"

definition ex_publish_update :: updateCourseInput where
  "ex_publish_update = \<lparr> uco_id = ''ccourse01'', uco_title = None, uco_slug = None,
     uco_description = None, uco_price = None, uco_difficulty = None, uco_categoryId = None,
     uco_language = None, uco_isFree = None, uco_published = Some True, uco_featured = None,
     uco_thumbnail = None, uco_coverImage = None \<rparr>"

definition ex_progress :: updateProgressInput where
  "ex_progress = \<lparr> upi_lessonId = ''clesson01'', upi_watchTime = 30, upi_lastPosition = 30,
     upi_completed = Some True \<rparr>"

definition ex_complete :: markLessonCompleteInput where
  "ex_complete = \<lparr> mci_lessonId = ''clesson01'', mci_watchTime = 45 \<rparr>"

text \<open>
  An administrator creates a 50 percent coupon and later sends an update that carries a new
  \<open>discountValue\<close> and nothing else.
\<close>

definition ex_create_half :: createCouponInput where
  "ex_create_half = \<lparr> cci_code = ''HALF50'', cci_name = ''Half'', cci_description = None,
     cci_discountType = PERCENTAGE, cci_discountValue = 50, cci_maxUses = None,
     cci_maxUsesPerUser = None, cci_validFrom = None, cci_validUntil = None,
     cci_isGlobal = True, cci_courseIds = None, cci_isActive = True \<rparr>"

definition ex_raise :: updateCouponInput where
  "ex_raise = ex_none_update\<lparr> uci_id := ''ccoupon03'', uci_discountValue := Some 150 \<rparr>"

definition ex_db_created :: db where
  "ex_db_created = snd (createCoupon ex_db ex_admin ''ccoupon03'' 1000 ex_create_half)"

definition ex_db_raised :: db where
  "ex_db_raised = snd (updateCoupon ex_db_created ex_admin ex_raise)"

section \<open>Unfolding the example data\<close>

lemmas ex_defs = ex_user_def ex_admin_def ex_coupon_def ex_coupon_fixed_def ex_course_def
  ex_course_empty_def ex_lesson1_def ex_lesson2_def ex_db_def ex_enrollment_def
  ex_studentProgress_def ex_lessonProgress_def ex_db_enrolled_def ex_db_stale_def
  ex_db_capped_def ex_db_capped_enrolled_def ex_db_used_def ex_course_other_def
  ex_lesson3_def ex_db_multi_def ex_db_class_def ex_db_draft_def ex_enroll_with_coupon_def
  ex_apply_def ex_none_update_def ex_publish_update_def ex_progress_def ex_complete_def
  ex_create_half_def ex_raise_def ex_db_created_def ex_db_raised_def

lemmas query_defs = coupon_findUnique_code_def coupon_findUnique_id_def
  courseCoupons_where_def couponUsage_where_def truthy_num_def truthy_str_def date_gt_def
  date_lt_def usage_limit_reached_def course_findUnique_id_def course_findUnique_slug_def
  enrollment_findUnique_def lesson_findUnique_def studentProgress_findUnique_def
  enrollments_where_def lesson_in_course_def category_findUnique_def category_courses_def
  toUpperCase_def toUpperChar_def catch_def opt_set_def opt_set_nullable_def opt_all_def
  auditLog_create_def Let_def

lemmas progress_defs = updateLessonProgress_def updateLessonProgress_body_def
  markLessonComplete_def markLessonComplete_body_def updateCourseProgress_def
  lessonProgress_upsert_def totalLessons_def completedLessons_def totalWatchTime_def
  uncompletedRequired_def

lemmas coupon_admin_defs = createCoupon_def createCoupon_body_def coupon_create_def
  courseCoupon_createMany_def updateCoupon_def updateCoupon_body_def coupon_apply_update_def
  createCouponSchema_def updateCouponSchema_def coupon_code_regex_def coupon_code_char_def
  cuid_def

lemmas enroll_defs = enrollCourse_def enrollCourse_body_def enrollCourse_tx_def
  enrollCourse_coupon_def transaction_def lessons_of_course_def enrollment_create_def
  studentProgress_create_def coupon_increment_usedCount_def couponUsage_create_def

section \<open>Facts about the list operations\<close>

lemma find_Some_P: "find P xs = Some x \<Longrightarrow> P x \<and> x \<in> set xs"
  by (induction xs) (auto split: if_splits)

lemma find_distinct_key:
  "distinct (map f xs) \<Longrightarrow> x \<in> set xs \<Longrightarrow> find (\<lambda>y. f y = f x) xs = Some x"
  by (induction xs) (auto simp: image_iff)

lemma update_first_Some:
  "update_first P f xs = Some ys \<Longrightarrow>
     \<exists>xs1 x xs2. xs = xs1 @ x # xs2 \<and> P x \<and> (\<forall>y\<in>set xs1. \<not> P y) \<and> ys = xs1 @ f x # xs2"
proof (induction xs arbitrary: ys)
  case Nil
  then show ?case by simp
next
  case (Cons a xs)
  show ?case
  proof (cases "P a")
    case True
    with Cons.prems have "ys = f a # xs" by simp
    with True show ?thesis by (intro exI[of _ "[]"] exI[of _ a] exI[of _ xs]) simp
  next
    case False
    with Cons.prems obtain zs where zs: "update_first P f xs = Some zs" "ys = a # zs"
      by (auto split: option.splits)
    from Cons.IH[OF zs(1)] obtain xs1 x xs2 where
      "xs = xs1 @ x # xs2" "P x" "\<forall>y\<in>set xs1. \<not> P y" "zs = xs1 @ f x # xs2" by blast
    with False zs(2) show ?thesis
      by (intro exI[of _ "a # xs1"] exI[of _ x] exI[of _ xs2]) simp
  qed
qed

lemma find_update_first_same:
  "update_first P f xs = Some ys \<Longrightarrow> (\<And>x. P x \<Longrightarrow> P (f x)) \<Longrightarrow>
     \<exists>x. find P xs = Some x \<and> find P ys = Some (f x)"
  by (induction xs arbitrary: ys) (auto split: if_splits option.splits)

lemma find_update_first_other:
  "update_first Q g xs = Some ys \<Longrightarrow> (\<And>x. P (g x) = P x) \<Longrightarrow> (\<And>x. h (g x) = h x) \<Longrightarrow>
     map_option h (find P ys) = map_option h (find P xs)"
  by (induction xs arbitrary: ys) (auto split: if_splits option.splits)

section \<open>Discount computation\<close>

text \<open>
  Claim C1. Whenever \<open>calculateDiscount\<close> answers, for the coupon the request names and a
  price the schema admits (not negative), the discount is price times rate over 100 for a
  \<open>PERCENTAGE\<close> coupon and the smaller of value and price for a \<open>FIXED_AMOUNT\<close> coupon, and
  the final price is the price less the discount, clamped at zero. This holds for the
  public procedure of \<open>couponsRouter\<close> and for the one of \<open>adminCouponsRouter\<close>.
\<close>

theorem calculateDiscount_formula:
  "(calculateDiscountSchema i \<longrightarrow> calculateDiscount d now i = Inr r \<longrightarrow>
      (\<exists>k. coupon_findUnique_code d (toUpperCase (cdi_couponCode i)) = Some k \<and>
         (cp_discountType k = PERCENTAGE \<longrightarrow>
            cdr_discountAmount r = cdi_originalPrice i * cp_discountValue k / 100) \<and>
         (cp_discountType k = FIXED_AMOUNT \<longrightarrow>
            cdr_discountAmount r = min (cp_discountValue k) (cdi_originalPrice i)) \<and>
         cdr_finalPrice r = max 0 (cdi_originalPrice i - cdr_discountAmount r))) \<and>
   (adminCalculateDiscountSchema a \<longrightarrow> adminCalculateDiscount d a = Inr ar \<longrightarrow>
      (\<exists>k. coupon_findUnique_id d (acdi_couponId a) = Some k \<and>
         (cp_discountType k = PERCENTAGE \<longrightarrow>
            acdr_discountAmount ar = acdi_originalPrice a * cp_discountValue k / 100) \<and>
         (cp_discountType k = FIXED_AMOUNT \<longrightarrow>
            acdr_discountAmount ar = min (cp_discountValue k) (acdi_originalPrice a)) \<and>
         acdr_finalPrice ar = max 0 (acdi_originalPrice a - acdr_discountAmount ar)))"
proof (intro conjI impI)
  assume "calculateDiscount d now i = Inr r"
  then show "\<exists>k. coupon_findUnique_code d (toUpperCase (cdi_couponCode i)) = Some k \<and>
         (cp_discountType k = PERCENTAGE \<longrightarrow>
            cdr_discountAmount r = cdi_originalPrice i * cp_discountValue k / 100) \<and>
         (cp_discountType k = FIXED_AMOUNT \<longrightarrow>
            cdr_discountAmount r = min (cp_discountValue k) (cdi_originalPrice i)) \<and>
         cdr_finalPrice r = max 0 (cdi_originalPrice i - cdr_discountAmount r)"
    by (auto simp: calculateDiscount_def calculateDiscount_body_def Let_def
             split: option.splits if_splits sum.splits)
next
  assume "adminCalculateDiscount d a = Inr ar"
  then show "\<exists>k. coupon_findUnique_id d (acdi_couponId a) = Some k \<and>
         (cp_discountType k = PERCENTAGE \<longrightarrow>
            acdr_discountAmount ar = acdi_originalPrice a * cp_discountValue k / 100) \<and>
         (cp_discountType k = FIXED_AMOUNT \<longrightarrow>
            acdr_discountAmount ar = min (cp_discountValue k) (acdi_originalPrice a)) \<and>
         acdr_finalPrice ar = max 0 (acdi_originalPrice a - acdr_discountAmount ar)"
    by (auto simp: adminCalculateDiscount_def Let_def split: option.splits if_splits)
qed

text \<open>
  On the example database: 20 percent of 250 through the public procedure, and the
  fixed 50 on a price of 30 through the administrators' procedure.
\<close>

theorem calculateDiscount_formula_witness:
  "calculateDiscountSchema
     \<lparr> cdi_couponCode = ''welcome20'', cdi_courseId = ''ccourse01'', cdi_originalPrice = 250 \<rparr> \<and>
   calculateDiscount ex_db 5000
     \<lparr> cdi_couponCode = ''welcome20'', cdi_courseId = ''ccourse01'', cdi_originalPrice = 250 \<rparr>
     = Inr \<lparr> cdr_originalPrice = 250, cdr_discountAmount = 50, cdr_finalPrice = 200,
             cdr_discountPercentage = 20, cdr_savings = 50,
             cdr_coupon = \<lparr> cs_code = ''WELCOME20'', cs_name = ''Welcome'',
                            cs_discountType = PERCENTAGE, cs_discountValue = 20 \<rparr> \<rparr> \<and>
   adminCalculateDiscountSchema \<lparr> acdi_couponId = ''ccoupon02'', acdi_originalPrice = 30 \<rparr> \<and>
   adminCalculateDiscount ex_db \<lparr> acdi_couponId = ''ccoupon02'', acdi_originalPrice = 30 \<rparr>
     = Inr \<lparr> acdr_originalPrice = 30, acdr_discountAmount = 30, acdr_finalPrice = 0,
             acdr_discountPercentage = 100 \<rparr>"
  using calculateDiscount_formula
    [where i = "\<lparr> cdi_couponCode = ''welcome20'', cdi_courseId = ''ccourse01'',
                   cdi_originalPrice = 250 \<rparr>"
       and d = ex_db and now = 5000
       and r = "\<lparr> cdr_originalPrice = 250, cdr_discountAmount = 50, cdr_finalPrice = 200,
             cdr_discountPercentage = 20, cdr_savings = 50,
             cdr_coupon = \<lparr> cs_code = ''WELCOME20'', cs_name = ''Welcome'',
                            cs_discountType = PERCENTAGE, cs_discountValue = 20 \<rparr> \<rparr>"
       and a = "\<lparr> acdi_couponId = ''ccoupon02'', acdi_originalPrice = 30 \<rparr>"
       and ar = "\<lparr> acdr_originalPrice = 30, acdr_discountAmount = 30, acdr_finalPrice = 0,
             acdr_discountPercentage = 100 \<rparr>"]
  by (simp add: ex_defs query_defs calculateDiscountSchema_def adminCalculateDiscountSchema_def
        cuid_def calculateDiscount_def calculateDiscount_body_def adminCalculateDiscount_def)

text \<open>
  Claim C9. \<open>applyCoupon\<close> writes nothing: whatever the request and the database, the
  database after the call is the database before it, so the coupon's \<open>usedCount\<close>, the
  \<open>CouponUsage\<close> table and the \<open>Enrollment\<close> table are untouched; when it succeeds it only
  returns the pricing computed from the course's price and the coupon.
\<close>

theorem applyCoupon_no_writes:
  "snd (applyCoupon d userId now i) = d \<and>
   (\<forall>r. fst (applyCoupon d userId now i) = Inr r \<longrightarrow>
      (\<exists>k c. coupon_findUnique_code d (toUpperCase (aci_code i)) = Some k \<and>
         course_findUnique_id d (aci_courseId i) = Some c \<and>
         pr_originalPrice (acr_pricing r) = co_price c \<and>
         pr_discountAmount (acr_pricing r) =
           (if cp_discountType k = PERCENTAGE then co_price c * cp_discountValue k / 100
            else min (cp_discountValue k) (co_price c)) \<and>
         pr_finalPrice (acr_pricing r) = max 0 (co_price c - pr_discountAmount (acr_pricing r))))"
proof
  show "snd (applyCoupon d userId now i) = d"
    by (simp add: applyCoupon_def applyCoupon_body_def Let_def split: option.splits)
next
  show "\<forall>r. fst (applyCoupon d userId now i) = Inr r \<longrightarrow>
      (\<exists>k c. coupon_findUnique_code d (toUpperCase (aci_code i)) = Some k \<and>
         course_findUnique_id d (aci_courseId i) = Some c \<and>
         pr_originalPrice (acr_pricing r) = co_price c \<and>
         pr_discountAmount (acr_pricing r) =
           (if cp_discountType k = PERCENTAGE then co_price c * cp_discountValue k / 100
            else min (cp_discountValue k) (co_price c)) \<and>
         pr_finalPrice (acr_pricing r) = max 0 (co_price c - pr_discountAmount (acr_pricing r)))"
    by (auto simp: applyCoupon_def applyCoupon_body_def Let_def split: option.splits if_splits)
qed

text \<open>The student applies the 20 percent coupon to the course priced 200.\<close>

theorem applyCoupon_no_writes_witness:
  "applyCoupon ex_db ex_user 5000 ex_apply =
     (Inr \<lparr> acr_success = True,
            acr_coupon = (''ccoupon01'', ''WELCOME20'', ''Welcome''),
            acr_pricing = \<lparr> pr_originalPrice = 200, pr_discountAmount = 40,
                            pr_finalPrice = 160, pr_savings = 40 \<rparr>,
            acr_course = (''ccourse01'', ''Football'') \<rparr>, ex_db)"
  using applyCoupon_no_writes [of ex_db ex_user 5000 ex_apply]
  by (simp add: ex_defs query_defs applyCoupon_def applyCoupon_body_def)

section \<open>Categories\<close>

text \<open>
  Claim C8. Deleting a category that exists and has at least one course fails with
  \<open>CONFLICT\<close> and leaves the database as it was; the categories change only when the
  category has no course, and the courses never change.
\<close>

theorem deleteCategory_with_courses:
  "((\<exists>c\<in>set (categories d). ca_id c = inputId) \<and>
    (\<exists>c\<in>set (courses d). co_categoryId c = inputId) \<longrightarrow>
      deleteCategory d adminId inputId =
        (Inl (TRPCError CONFLICT
           ''Cannot delete category with existing courses. Move courses to another category first.''),
         d)) \<and>
   (categories (snd (deleteCategory d adminId inputId)) \<noteq> categories d \<longrightarrow>
      (\<forall>c\<in>set (courses d). co_categoryId c \<noteq> inputId)) \<and>
   courses (snd (deleteCategory d adminId inputId)) = courses d"
proof (intro conjI impI)
  assume h: "(\<exists>c\<in>set (categories d). ca_id c = inputId) \<and>
    (\<exists>c\<in>set (courses d). co_categoryId c = inputId)"
  then obtain cat where cat: "category_findUnique d inputId = Some cat"
    by (cases "category_findUnique d inputId")
       (auto simp: category_findUnique_def find_None_iff)
  from h have "category_courses d inputId \<noteq> []"
    by (auto simp: category_courses_def filter_empty_conv)
  with cat show "deleteCategory d adminId inputId =
        (Inl (TRPCError CONFLICT
           ''Cannot delete category with existing courses. Move courses to another category first.''),
         d)"
    by (simp add: deleteCategory_def deleteCategory_body_def catch_def)
next
  assume ch: "categories (snd (deleteCategory d adminId inputId)) \<noteq> categories d"
  show "\<forall>c\<in>set (courses d). co_categoryId c \<noteq> inputId"
  proof (rule ccontr)
    assume "\<not> (\<forall>c\<in>set (courses d). co_categoryId c \<noteq> inputId)"
    then have "category_courses d inputId \<noteq> []"
      by (auto simp: category_courses_def filter_empty_conv)
    then have "snd (deleteCategory d adminId inputId) = d"
      by (simp add: deleteCategory_def deleteCategory_body_def split: option.splits)
    with ch show False by simp
  qed
next
  show "courses (snd (deleteCategory d adminId inputId)) = courses d"
    by (simp add: deleteCategory_def deleteCategory_body_def auditLog_create_def Let_def
             split: option.splits)
qed

text \<open>
  The category of the two example courses cannot be deleted; the empty category can, and
  the deletion is logged.
\<close>

theorem deleteCategory_with_courses_witness:
  "deleteCategory ex_db ex_admin ''ccategory1'' =
     (Inl (TRPCError CONFLICT
        ''Cannot delete category with existing courses. Move courses to another category first.''),
      ex_db) \<and>
   deleteCategory ex_db ex_admin ''ccategory2'' =
     (Inr True,
      ex_db\<lparr> categories := [\<lparr> ca_id = ''ccategory1'', ca_name = ''Sport'', ca_slug = ''sport'' \<rparr>],
             auditLogs := [\<lparr> al_action = ''DELETE_CATEGORY'', al_actorId = ''cadmin001'',
                              al_actorType = ''ADMIN'', al_resourceId = Some ''ccategory2'',
                              al_resourceType = ''CATEGORY'' \<rparr>] \<rparr>) \<and>
   categories (snd (deleteCategory ex_db ex_admin ''ccategory2'')) \<noteq> categories ex_db"
  using deleteCategory_with_courses [of ex_db "''ccategory1''" ex_admin]
    deleteCategory_with_courses [of ex_db "''ccategory2''" ex_admin]
  by (simp add: ex_defs query_defs deleteCategory_def deleteCategory_body_def)

section \<open>Enrollment\<close>

lemma lessonProgress_createMany_Inr:
  "lessonProgress_createMany d ps = Inr d' \<Longrightarrow>
     d' = d\<lparr> lessonProgresses := lessonProgresses d @ ps \<rparr>"
proof (induction ps arbitrary: d)
  case Nil
  then show ?case by simp
next
  case (Cons p ps)
  from Cons.prems have
    "lessonProgress_createMany (d\<lparr> lessonProgresses := lessonProgresses d @ [p] \<rparr>) ps = Inr d'"
    by (simp split: if_splits)
  from Cons.IH[OF this] show ?case by simp
qed

text \<open>What a committed transaction of \<open>enrollCourse\<close> has written.\<close>

lemma enrollCourse_tx_Inr:
  assumes "enrollCourse_tx userId newId course ls applied tx = Inr (r, tx')"
  shows "ecr_enrollment r =
           \<lparr> en_userId = userId, en_courseId = co_id course, en_appliedCouponId = applied,
             en_status = ACTIVE, en_progress = 0, en_completedAt = None \<rparr>"
    and "enrollments tx' = enrollments tx @ [ecr_enrollment r]"
    and "\<not> list_ex (\<lambda>x. en_userId x = userId \<and> en_courseId x = co_id course) (enrollments tx)"
    and "studentProgresses tx' = studentProgresses tx @
           [\<lparr> sp_id = newId, sp_userId = userId, sp_courseId = co_id course,
              sp_totalWatchTime = 0, sp_completionRate = 0, sp_lastAccessedAt = None \<rparr>]"
    and "lessonProgresses tx' = lessonProgresses tx @
           map (\<lambda>lesson. \<lparr> lp_userId = userId, lp_lessonId = le_id lesson,
                            lp_studentProgressId = newId, lp_watchTime = 0,
                            lp_completed = False, lp_lastPosition = 0,
                            lp_completedAt = None \<rparr>) ls"
    and "if truthy_str applied
         then update_first (\<lambda>k. cp_id k = the applied)
                (\<lambda>k. k\<lparr> cp_usedCount := cp_usedCount k + 1 \<rparr>) (coupons tx) = Some (coupons tx')
              \<and> couponUsages tx' = couponUsages tx @
                   [\<lparr> cu_userId = userId, cu_couponId = the applied,
                      cu_courseId = co_id course, cu_discountAmount = 0 \<rparr>]
         else coupons tx' = coupons tx \<and> couponUsages tx' = couponUsages tx"
    and "courseCoupons tx' = courseCoupons tx \<and> courses tx' = courses tx \<and>
         lessons tx' = lessons tx \<and> categories tx' = categories tx \<and>
         auditLogs tx' = auditLogs tx"
  using assms
  unfolding enrollCourse_tx_def Let_def enrollment_create_def studentProgress_create_def
    coupon_increment_usedCount_def couponUsage_create_def
  by (auto split: if_splits sum.splits option.splits dest!: lessonProgress_createMany_Inr)

lemma enrollCourse_Inl_unchanged:
  "fst (enrollCourse d u n now i) = Inl e \<Longrightarrow> snd (enrollCourse d u n now i) = d"
  unfolding enrollCourse_def enrollCourse_body_def transaction_def Let_def
  by (auto split: option.splits if_splits sum.splits prod.splits)

lemma enrollCourse_Inr:
  assumes "enrollCourse d u n now i = (Inr r, d')"
  shows "\<exists>course applied.
     enrollment_findUnique d u (eci_courseId i) = None \<and>
     course_findUnique_id d (eci_courseId i) = Some course \<and> co_id course = eci_courseId i \<and>
     co_published course \<and>
     enrollCourse_coupon d u now (eci_courseId i) (eci_couponCode i) = Inr applied \<and>
     enrollCourse_tx u n course (lessons_of_course d (eci_courseId i)) applied d = Inr (r, d')"
  using assms
  unfolding enrollCourse_def enrollCourse_body_def transaction_def Let_def course_findUnique_id_def
  by (auto split: option.splits if_splits sum.splits prod.splits dest: find_Some_P)

text \<open>Which coupon the coupon checks of \<open>enrollCourse\<close> let through.\<close>

lemma enrollCourse_coupon_Inr:
  assumes "enrollCourse_coupon d u now c couponCode = Inr applied"
  shows "case couponCode of
           None \<Rightarrow> applied = None
         | Some s \<Rightarrow>
             if s = [] then applied = None
             else \<exists>k. find (\<lambda>k. cp_code k = s) (coupons d) = Some k \<and>
                      applied = Some (cp_id k)"
  using assms
  unfolding enrollCourse_coupon_def truthy_str_def coupon_findUnique_code_def
  by (auto split: option.splits if_splits)

text \<open>
  Claim C4. When the user already has an enrollment in the course, \<open>enrollCourse\<close> fails
  with \<open>CONFLICT\<close> and leaves the database as it was; and a table of enrollments that has
  at most one row for each pair of user and course still has at most one after any call.
\<close>

theorem enrollCourse_twice_conflict:
  "((\<exists>e\<in>set (enrollments d). en_userId e = userId \<and> en_courseId e = eci_courseId i) \<longrightarrow>
      enrollCourse d userId newId now i =
        (Inl (TRPCError CONFLICT ''You are already enrolled in this course''), d)) \<and>
   (distinct (map (\<lambda>e. (en_userId e, en_courseId e)) (enrollments d)) \<longrightarrow>
      distinct (map (\<lambda>e. (en_userId e, en_courseId e))
                 (enrollments (snd (enrollCourse d userId newId now i)))))"
proof (intro conjI impI)
  assume "\<exists>e\<in>set (enrollments d). en_userId e = userId \<and> en_courseId e = eci_courseId i"
  then obtain e where "enrollment_findUnique d userId (eci_courseId i) = Some e"
    by (cases "enrollment_findUnique d userId (eci_courseId i)")
       (auto simp: enrollment_findUnique_def find_None_iff)
  then show "enrollCourse d userId newId now i =
        (Inl (TRPCError CONFLICT ''You are already enrolled in this course''), d)"
    by (simp add: enrollCourse_def enrollCourse_body_def catch_def)
next
  assume dist: "distinct (map (\<lambda>e. (en_userId e, en_courseId e)) (enrollments d))"
  obtain res d' where rd: "enrollCourse d userId newId now i = (res, d')"
    by (cases "enrollCourse d userId newId now i")
  show "distinct (map (\<lambda>e. (en_userId e, en_courseId e))
                 (enrollments (snd (enrollCourse d userId newId now i))))"
  proof (cases res)
    case (Inl e)
    with rd enrollCourse_Inl_unchanged[of d userId newId now i e] dist show ?thesis by simp
  next
    case (Inr r)
    with rd have "enrollCourse d userId newId now i = (Inr r, d')" by simp
    from enrollCourse_Inr[OF this] obtain course applied where
      tx: "enrollCourse_tx userId newId course (lessons_of_course d (eci_courseId i)) applied d
             = Inr (r, d')" by blast
    note w = enrollCourse_tx_Inr[OF tx]
    from w(1,2,3) dist rd show ?thesis
      by (auto simp: list_ex_iff)
  qed
qed

text \<open>
  The enrolled student asks again and is refused; a second student enrolls in the same
  course and the three rows are for three different pairs.
\<close>

theorem enrollCourse_twice_conflict_witness:
  "enrollCourse ex_db_enrolled ex_user ''cprogress9'' 5000 ex_enroll_with_coupon =
     (Inl (TRPCError CONFLICT ''You are already enrolled in this course''), ex_db_enrolled) \<and>
   map (\<lambda>e. (en_userId e, en_courseId e)) (enrollments ex_db_enrolled)
     = [(''cuser0001'', ''ccourse01''), (''cuser0001'', ''ccourse02'')] \<and>
   map (\<lambda>e. (en_userId e, en_courseId e))
     (enrollments (snd (enrollCourse ex_db_enrolled ''cuser0002'' ''cprogress3'' 5000
                          ex_enroll_with_coupon)))
     = [(''cuser0001'', ''ccourse01''), (''cuser0001'', ''ccourse02''),
        (''cuser0002'', ''ccourse01'')]"
  using enrollCourse_twice_conflict
          [of ex_db_enrolled ex_user ex_enroll_with_coupon "''cprogress9''" 5000]
    enrollCourse_twice_conflict
          [of ex_db_enrolled "''cuser0002''" ex_enroll_with_coupon "''cprogress3''" 5000]
  by (simp add: ex_defs query_defs enroll_defs)

text \<open>
  Claim C7. A successful \<open>enrollCourse\<close> has appended exactly the enrollment, the
  \<open>StudentProgress\<close> row with \<open>totalWatchTime\<close> 0 and \<open>completionRate\<close> 0 and one
  \<open>LessonProgress\<close> row for each lesson of the requested course (those lessons and no
  others, in the order of the lessons), and, when a coupon was applied, has raised the
  \<open>usedCount\<close> of one coupon row by one and appended one \<open>CouponUsage\<close> row; the applied
  coupon is the one the request's code names, and without a coupon the coupons and the
  usages are as before. No other table changes. A failed call leaves the database as it
  was, also when a write inside the transaction is the one that failed.
\<close>

theorem enrollCourse_single_transaction:
  assumes "enrollCourse d userId newId now i = (res, d')"
  shows "(\<forall>e. res = Inl e \<longrightarrow> d' = d) \<and>
    (\<forall>r. res = Inr r \<longrightarrow>
       (\<exists>applied.
          (case eci_couponCode i of
             None \<Rightarrow> applied = None
           | Some s \<Rightarrow>
               if s = [] then applied = None
               else \<exists>k. find (\<lambda>k. cp_code k = s) (coupons d) = Some k \<and>
                        applied = Some (cp_id k)) \<and>
          ecr_enrollment r =
            \<lparr> en_userId = userId, en_courseId = eci_courseId i,
              en_appliedCouponId = applied, en_status = ACTIVE,
              en_progress = 0, en_completedAt = None \<rparr> \<and>
          enrollments d' = enrollments d @
            [\<lparr> en_userId = userId, en_courseId = eci_courseId i,
               en_appliedCouponId = applied, en_status = ACTIVE,
               en_progress = 0, en_completedAt = None \<rparr>] \<and>
          studentProgresses d' = studentProgresses d @
            [\<lparr> sp_id = newId, sp_userId = userId, sp_courseId = eci_courseId i,
               sp_totalWatchTime = 0, sp_completionRate = 0, sp_lastAccessedAt = None \<rparr>] \<and>
          lessonProgresses d' = lessonProgresses d @
            map (\<lambda>lesson. \<lparr> lp_userId = userId, lp_lessonId = le_id lesson,
                             lp_studentProgressId = newId, lp_watchTime = 0,
                             lp_completed = False, lp_lastPosition = 0,
                             lp_completedAt = None \<rparr>)
              (sort_key le_order
                 (filter (\<lambda>l. le_courseId l = eci_courseId i) (lessons d))) \<and>
          (case applied of
             None \<Rightarrow> coupons d' = coupons d \<and> couponUsages d' = couponUsages d
           | Some c \<Rightarrow>
               if c = [] then coupons d' = coupons d \<and> couponUsages d' = couponUsages d
               else (\<exists>ks1 k ks2. coupons d = ks1 @ k # ks2 \<and> cp_id k = c \<and>
                       coupons d' = ks1 @ k\<lparr> cp_usedCount := cp_usedCount k + 1 \<rparr> # ks2) \<and>
                    couponUsages d' = couponUsages d @
                      [\<lparr> cu_userId = userId, cu_couponId = c,
                         cu_courseId = eci_courseId i, cu_discountAmount = 0 \<rparr>]) \<and>
          courseCoupons d' = courseCoupons d \<and> courses d' = courses d \<and>
          lessons d' = lessons d \<and> categories d' = categories d \<and>
          auditLogs d' = auditLogs d))"
proof (intro conjI allI impI)
  fix e assume "res = Inl e"
  with assms enrollCourse_Inl_unchanged[of d userId newId now i e] show "d' = d" by simp
next
  fix r assume "res = Inr r"
  with assms have ok: "enrollCourse d userId newId now i = (Inr r, d')" by simp
  from enrollCourse_Inr[OF ok] obtain course applied where
    c: "co_id course = eci_courseId i" and
    cp: "enrollCourse_coupon d userId now (eci_courseId i) (eci_couponCode i) = Inr applied" and
    tx: "enrollCourse_tx userId newId course (lessons_of_course d (eci_courseId i)) applied d
           = Inr (r, d')" by blast
  note w = enrollCourse_tx_Inr[OF tx]
  note code = enrollCourse_coupon_Inr[OF cp]
  have en: "ecr_enrollment r =
            \<lparr> en_userId = userId, en_courseId = eci_courseId i,
              en_appliedCouponId = applied, en_status = ACTIVE,
              en_progress = 0, en_completedAt = None \<rparr>"
    using w(1) by (simp add: c)
  have ens: "enrollments d' = enrollments d @
            [\<lparr> en_userId = userId, en_courseId = eci_courseId i,
               en_appliedCouponId = applied, en_status = ACTIVE,
               en_progress = 0, en_completedAt = None \<rparr>]"
    using w(2) by (simp add: en)
  have sps: "studentProgresses d' = studentProgresses d @
            [\<lparr> sp_id = newId, sp_userId = userId, sp_courseId = eci_courseId i,
               sp_totalWatchTime = 0, sp_completionRate = 0, sp_lastAccessedAt = None \<rparr>]"
    using w(4) by (simp add: c)
  have lps: "lessonProgresses d' = lessonProgresses d @
            map (\<lambda>lesson. \<lparr> lp_userId = userId, lp_lessonId = le_id lesson,
                             lp_studentProgressId = newId, lp_watchTime = 0,
                             lp_completed = False, lp_lastPosition = 0,
                             lp_completedAt = None \<rparr>)
              (sort_key le_order
                 (filter (\<lambda>l. le_courseId l = eci_courseId i) (lessons d)))"
    using w(5) by (simp add: lessons_of_course_def)
  have cus: "case applied of
             None \<Rightarrow> coupons d' = coupons d \<and> couponUsages d' = couponUsages d
           | Some c \<Rightarrow>
               if c = [] then coupons d' = coupons d \<and> couponUsages d' = couponUsages d
               else (\<exists>ks1 k ks2. coupons d = ks1 @ k # ks2 \<and> cp_id k = c \<and>
                       coupons d' = ks1 @ k\<lparr> cp_usedCount := cp_usedCount k + 1 \<rparr> # ks2) \<and>
                    couponUsages d' = couponUsages d @
                      [\<lparr> cu_userId = userId, cu_couponId = c,
                         cu_courseId = eci_courseId i, cu_discountAmount = 0 \<rparr>]"
  proof (cases "truthy_str applied")
    case True
    then obtain cid where cid: "applied = Some cid" "cid \<noteq> []"
      by (auto simp: truthy_str_def split: option.splits)
    from True w(6) cid have up: "update_first (\<lambda>k. cp_id k = cid)
        (\<lambda>k. k\<lparr> cp_usedCount := cp_usedCount k + 1 \<rparr>) (coupons d) = Some (coupons d')"
      and us: "couponUsages d' = couponUsages d @
                 [\<lparr> cu_userId = userId, cu_couponId = cid,
                    cu_courseId = co_id course, cu_discountAmount = 0 \<rparr>]"
      by simp_all
    from update_first_Some[OF up] obtain ks1 k ks2 where
      "coupons d = ks1 @ k # ks2" "cp_id k = cid"
      "coupons d' = ks1 @ k\<lparr> cp_usedCount := cp_usedCount k + 1 \<rparr> # ks2" by blast
    with cid us show ?thesis
      by (auto simp: c)
  next
    case False
    with w(6) show ?thesis
      by (auto simp: truthy_str_def split: option.splits)
  qed
  from code en ens sps lps cus w(7)
  show "\<exists>applied.
          (case eci_couponCode i of
             None \<Rightarrow> applied = None
           | Some s \<Rightarrow>
               if s = [] then applied = None
               else \<exists>k. find (\<lambda>k. cp_code k = s) (coupons d) = Some k \<and>
                        applied = Some (cp_id k)) \<and>
          ecr_enrollment r =
            \<lparr> en_userId = userId, en_courseId = eci_courseId i,
              en_appliedCouponId = applied, en_status = ACTIVE,
              en_progress = 0, en_completedAt = None \<rparr> \<and>
          enrollments d' = enrollments d @
            [\<lparr> en_userId = userId, en_courseId = eci_courseId i,
               en_appliedCouponId = applied, en_status = ACTIVE,
               en_progress = 0, en_completedAt = None \<rparr>] \<and>
          studentProgresses d' = studentProgresses d @
            [\<lparr> sp_id = newId, sp_userId = userId, sp_courseId = eci_courseId i,
               sp_totalWatchTime = 0, sp_completionRate = 0, sp_lastAccessedAt = None \<rparr>] \<and>
          lessonProgresses d' = lessonProgresses d @
            map (\<lambda>lesson. \<lparr> lp_userId = userId, lp_lessonId = le_id lesson,
                             lp_studentProgressId = newId, lp_watchTime = 0,
                             lp_completed = False, lp_lastPosition = 0,
                             lp_completedAt = None \<rparr>)
              (sort_key le_order
                 (filter (\<lambda>l. le_courseId l = eci_courseId i) (lessons d))) \<and>
          (case applied of
             None \<Rightarrow> coupons d' = coupons d \<and> couponUsages d' = couponUsages d
           | Some c \<Rightarrow>
               if c = [] then coupons d' = coupons d \<and> couponUsages d' = couponUsages d
               else (\<exists>ks1 k ks2. coupons d = ks1 @ k # ks2 \<and> cp_id k = c \<and>
                       coupons d' = ks1 @ k\<lparr> cp_usedCount := cp_usedCount k + 1 \<rparr> # ks2) \<and>
                    couponUsages d' = couponUsages d @
                      [\<lparr> cu_userId = userId, cu_couponId = c,
                         cu_courseId = eci_courseId i, cu_discountAmount = 0 \<rparr>]) \<and>
          courseCoupons d' = courseCoupons d \<and> courses d' = courses d \<and>
          lessons d' = lessons d \<and> categories d' = categories d \<and>
          auditLogs d' = auditLogs d"
    by (intro exI[of _ applied]) simp
qed

text \<open>
  The student enrolls in the paid course with the percentage coupon, in the database that
  also holds the third course: every row of the transaction is there, and the lesson of the
  third course gets no progress row. With a progress row already in the way the enrollment
  is created inside the transaction, the next create breaks the unique index, and nothing
  remains.
\<close>

theorem enrollCourse_single_transaction_witness:
  "enrollCourse ex_db_multi ex_user ''cprogress1'' 5000 ex_enroll_with_coupon =
     (Inr \<lparr> ecr_enrollment = \<lparr> en_userId = ''cuser0001'', en_courseId = ''ccourse01'',
                                en_appliedCouponId = Some ''ccoupon01'', en_status = ACTIVE,
                                en_progress = 0, en_completedAt = None \<rparr>,
            ecr_course = (''ccourse01'', ''Football'', ''football''),
            ecr_appliedCoupon = Some (''ccoupon01'', ''WELCOME20'', ''Welcome'') \<rparr>,
      ex_db_multi\<lparr> coupons := [ex_coupon\<lparr> cp_usedCount := 4 \<rparr>, ex_coupon_fixed],
             couponUsages := [\<lparr> cu_userId = ''cuser0001'', cu_couponId = ''ccoupon01'',
                                 cu_courseId = ''ccourse01'', cu_discountAmount = 0 \<rparr>],
             enrollments := [\<lparr> en_userId = ''cuser0001'', en_courseId = ''ccourse01'',
                                en_appliedCouponId = Some ''ccoupon01'', en_status = ACTIVE,
                                en_progress = 0, en_completedAt = None \<rparr>],
             studentProgresses := [ex_studentProgress ''cprogress1'' ''ccourse01''],
             lessonProgresses := [ex_lessonProgress ''clesson01'',
                                  ex_lessonProgress ''clesson02''] \<rparr>) \<and>
   map le_id (lessons ex_db_multi) = [''clesson02'', ''clesson03'', ''clesson01''] \<and>
   enrollCourse ex_db_stale ex_user ''cprogress2'' 5000 ex_enroll_with_coupon =
     (Inl (TRPCError INTERNAL_SERVER_ERROR ''Failed to enroll in course''), ex_db_stale)"
  using enrollCourse_single_transaction
          [of ex_db_multi ex_user "''cprogress1''" 5000 ex_enroll_with_coupon
              "fst (enrollCourse ex_db_multi ex_user ''cprogress1'' 5000 ex_enroll_with_coupon)"
              "snd (enrollCourse ex_db_multi ex_user ''cprogress1'' 5000 ex_enroll_with_coupon)"]
    enrollCourse_single_transaction
          [of ex_db_stale ex_user "''cprogress2''" 5000 ex_enroll_with_coupon
              "fst (enrollCourse ex_db_stale ex_user ''cprogress2'' 5000 ex_enroll_with_coupon)"
              "snd (enrollCourse ex_db_stale ex_user ''cprogress2'' 5000 ex_enroll_with_coupon)"]
  by (simp add: ex_defs query_defs enroll_defs)

text \<open>
  Claim C10. The \<open>CouponUsage\<close> row that a successful \<open>enrollCourse\<close> with a coupon
  appends records a \<open>discountAmount\<close> of 0, whatever the coupon's type and value and the
  course's price.
\<close>

theorem enrollCourse_usage_discount_zero:
  assumes "fst (enrollCourse d userId newId now i) = Inr r"
    and "en_appliedCouponId (ecr_enrollment r) = Some couponId" and "couponId \<noteq> []"
  shows "couponUsages (snd (enrollCourse d userId newId now i)) = couponUsages d @
           [\<lparr> cu_userId = userId, cu_couponId = couponId, cu_courseId = eci_courseId i,
              cu_discountAmount = 0 \<rparr>]"
proof -
  from assms(1) have ok: "enrollCourse d userId newId now i =
      (Inr r, snd (enrollCourse d userId newId now i))"
    by (metis prod.collapse)
  from enrollCourse_Inr[OF ok] obtain course applied where
    c: "co_id course = eci_courseId i" and
    tx: "enrollCourse_tx userId newId course (lessons_of_course d (eci_courseId i)) applied d
           = Inr (r, snd (enrollCourse d userId newId now i))" by blast
  note w = enrollCourse_tx_Inr[OF tx]
  from w(1) assms(2,3) have "truthy_str applied" "the applied = couponId"
    by (auto simp: truthy_str_def)
  with w(6) c show ?thesis by simp
qed

text \<open>
  The 20 percent coupon on the course priced 200 is worth 40 (see the run of
  \<open>applyCoupon\<close> above); the usage row of the enrollment says 0.
\<close>

theorem enrollCourse_usage_discount_zero_witness:
  "fst (enrollCourse ex_db ex_user ''cprogress1'' 5000 ex_enroll_with_coupon) =
     Inr \<lparr> ecr_enrollment = \<lparr> en_userId = ''cuser0001'', en_courseId = ''ccourse01'',
                               en_appliedCouponId = Some ''ccoupon01'', en_status = ACTIVE,
                               en_progress = 0, en_completedAt = None \<rparr>,
           ecr_course = (''ccourse01'', ''Football'', ''football''),
           ecr_appliedCoupon = Some (''ccoupon01'', ''WELCOME20'', ''Welcome'') \<rparr> \<and>
   couponUsages (snd (enrollCourse ex_db ex_user ''cprogress1'' 5000 ex_enroll_with_coupon)) =
     [\<lparr> cu_userId = ''cuser0001'', cu_couponId = ''ccoupon01'', cu_courseId = ''ccourse01'',
        cu_discountAmount = 0 \<rparr>]"
  using enrollCourse_usage_discount_zero
          [of ex_db ex_user "''cprogress1''" 5000 ex_enroll_with_coupon
              "\<lparr> ecr_enrollment = \<lparr> en_userId = ''cuser0001'', en_courseId = ''ccourse01'',
                               en_appliedCouponId = Some ''ccoupon01'', en_status = ACTIVE,
                               en_progress = 0, en_completedAt = None \<rparr>,
                 ecr_course = (''ccourse01'', ''Football'', ''football''),
                 ecr_appliedCoupon = Some (''ccoupon01'', ''WELCOME20'', ''Welcome'') \<rparr>"
              "''ccoupon01''"]
  by (simp add: ex_defs query_defs enroll_defs)

section \<open>Course progress\<close>

lemma progress_counts_cong:
  "lessons d' = lessons d \<Longrightarrow> lessonProgresses d' = lessonProgresses d \<Longrightarrow>
     totalLessons d' c = totalLessons d c \<and> completedLessons d' u c = completedLessons d u c"
  by (simp add: totalLessons_def completedLessons_def lesson_in_course_def)

lemma lesson_found_total:
  "lesson_findUnique d lessonId = Some l \<Longrightarrow> totalLessons d (le_courseId l) > 0"
  by (auto simp: lesson_findUnique_def totalLessons_def filter_empty_conv dest: find_Some_P)

lemma lessonProgress_upsert_lessons:
  "lessonProgress_upsert d u lessonId upd cr = (r, d1) \<Longrightarrow> lessons d1 = lessons d"
  by (auto simp: lessonProgress_upsert_def split: prod.splits)

text \<open>What \<open>updateCourseProgress\<close> stores when both of its updates find their row.\<close>

lemma updateCourseProgress_Inr:
  assumes "updateCourseProgress d now u c = Inr d'"
  shows "lessons d' = lessons d \<and> lessonProgresses d' = lessonProgresses d \<and>
     (\<exists>sp. studentProgress_findUnique d' u c = Some sp \<and>
        sp_completionRate sp =
          (if totalLessons d c > 0
           then real (completedLessons d u c) / real (totalLessons d c) * 100 else 0))"
proof -
  let ?rate = "if totalLessons d c > 0
           then real (completedLessons d u c) / real (totalLessons d c) * 100 else 0"
  let ?f = "\<lambda>p. p\<lparr> sp_completionRate := ?rate, sp_totalWatchTime := totalWatchTime d u c \<rparr>"
  let ?P = "\<lambda>p. sp_userId p = u \<and> sp_courseId p = c"
  from assms obtain sps es where
    sps: "update_first ?P ?f (studentProgresses d) = Some sps" and
    d': "d' = d\<lparr> studentProgresses := sps, enrollments := es \<rparr>"
    unfolding updateCourseProgress_def Let_def
    by (auto split: option.splits)
  from find_update_first_same[OF sps] obtain x where "find ?P sps = Some (?f x)"
    by auto
  with d' show ?thesis
    by (auto simp: studentProgress_findUnique_def)
qed

lemma updateLessonProgress_rate:
  assumes "updateLessonProgress d u now i = (Inr r, d')"
  shows "\<exists>l sp. lesson_findUnique d (upi_lessonId i) = Some l \<and>
     lessons d' = lessons d \<and>
     studentProgress_findUnique d' u (le_courseId l) = Some sp \<and>
     sp_completionRate sp =
       (if totalLessons d' (le_courseId l) > 0
        then real (completedLessons d' u (le_courseId l))
               / real (totalLessons d' (le_courseId l)) * 100
        else 0)"
proof -
  from assms have "\<exists>l sid d1 d2.
      lesson_findUnique d (upi_lessonId i) = Some l \<and> lessons d1 = lessons d \<and>
      updateCourseProgress d1 now u (le_courseId l) = Inr d2 \<and>
      update_first (\<lambda>p. sp_id p = sid) (\<lambda>p. p\<lparr> sp_lastAccessedAt := Some now \<rparr>)
            (studentProgresses d2) = Some (studentProgresses d') \<and>
      lessons d' = lessons d2 \<and> lessonProgresses d' = lessonProgresses d2"
    unfolding updateLessonProgress_def updateLessonProgress_body_def Let_def
    apply (auto split: option.splits list.splits prod.splits sum.splits)
    subgoal for l sp0 e es d1 d2 sps
      apply (rule exI[of _ "sp_id sp0"])
      apply (rule exI[of _ d1])
      apply (rule conjI)
       apply (simp add: lessonProgress_upsert_lessons)
      apply (rule exI[of _ d2])
      apply simp
      done
    done
  then obtain l sid d1 d2 where
    l: "lesson_findUnique d (upi_lessonId i) = Some l" and
    d1: "lessons d1 = lessons d" and
    cp: "updateCourseProgress d1 now u (le_courseId l) = Inr d2" and
    sps: "update_first (\<lambda>p. sp_id p = sid) (\<lambda>p. p\<lparr> sp_lastAccessedAt := Some now \<rparr>)
            (studentProgresses d2) = Some (studentProgresses d')" and
    d': "lessons d' = lessons d2" "lessonProgresses d' = lessonProgresses d2"
    by blast
  let ?c = "le_courseId l"
  from updateCourseProgress_Inr[OF cp] obtain sp where
    sp: "studentProgress_findUnique d2 u ?c = Some sp"
        "sp_completionRate sp =
          (if totalLessons d1 ?c > 0
           then real (completedLessons d1 u ?c) / real (totalLessons d1 ?c) * 100 else 0)"
    and same: "lessons d2 = lessons d1" "lessonProgresses d2 = lessonProgresses d1"
    by blast
  have "map_option sp_completionRate
          (find (\<lambda>p. sp_userId p = u \<and> sp_courseId p = ?c) (studentProgresses d'))
        = map_option sp_completionRate
            (find (\<lambda>p. sp_userId p = u \<and> sp_courseId p = ?c) (studentProgresses d2))"
    by (rule find_update_first_other[OF sps]) simp_all
  with sp(1) obtain sp' where
    sp': "studentProgress_findUnique d' u ?c = Some sp'"
         "sp_completionRate sp' = sp_completionRate sp"
    by (auto simp: studentProgress_findUnique_def)
  from d' same have "lessons d' = lessons d1" "lessonProgresses d' = lessonProgresses d1"
    by simp_all
  from progress_counts_cong[OF this] sp(2) sp' l d1 \<open>lessons d' = lessons d1\<close> show ?thesis
    by auto
qed

lemma markLessonComplete_rate:
  assumes "markLessonComplete d u now i = (Inr r, d')"
  shows "\<exists>l sp. lesson_findUnique d (mci_lessonId i) = Some l \<and>
     lessons d' = lessons d \<and>
     studentProgress_findUnique d' u (le_courseId l) = Some sp \<and>
     sp_completionRate sp =
       (if totalLessons d' (le_courseId l) > 0
        then real (completedLessons d' u (le_courseId l))
               / real (totalLessons d' (le_courseId l)) * 100
        else 0)"
proof -
  from assms obtain l d1 where
    l: "lesson_findUnique d (mci_lessonId i) = Some l" and
    d1: "lessons d1 = lessons d" and
    cp: "updateCourseProgress d1 now u (le_courseId l) = Inr d'"
    unfolding markLessonComplete_def markLessonComplete_body_def Let_def
    by (auto split: option.splits if_splits prod.splits sum.splits
             dest: lessonProgress_upsert_lessons)
  let ?c = "le_courseId l"
  from updateCourseProgress_Inr[OF cp] obtain sp where
    sp: "studentProgress_findUnique d' u ?c = Some sp"
        "sp_completionRate sp =
          (if totalLessons d1 ?c > 0
           then real (completedLessons d1 u ?c) / real (totalLessons d1 ?c) * 100 else 0)"
    and same: "lessons d' = lessons d1" "lessonProgresses d' = lessonProgresses d1"
    by blast
  from progress_counts_cong[OF same] sp l d1 same(1) show ?thesis by auto
qed

lemma totalLessons_explicit:
  "totalLessons d c = length (filter (\<lambda>x. le_courseId x = c) (lessons d))"
  by (simp add: totalLessons_def)

lemma completedLessons_explicit:
  "completedLessons d u c =
     length (filter (\<lambda>p. lp_userId p = u \<and> lp_completed p \<and>
                          (\<exists>x\<in>set (lessons d). le_id x = lp_lessonId p \<and> le_courseId x = c))
               (lessonProgresses d))"
  unfolding completedLessons_def lesson_in_course_def list_ex_iff
  by (rule arg_cong[where f = length], rule filter_cong) auto

text \<open>
  Claim C5. After a successful \<open>updateLessonProgress\<close> or \<open>markLessonComplete\<close> the
  \<open>completionRate\<close> stored for the user and the lesson's course is, counted in the
  database the call leaves behind: the number of lesson-progress rows that belong to this
  user, are completed and whose lesson is a lesson of this course, over the number of
  lessons of this course, times 100 (the course of a lesson has at least that lesson).
  And \<open>updateCourseProgress\<close> stores 0 for a course without lessons.
\<close>

theorem completionRate_recomputed:
  "(let d' = snd (updateLessonProgress d userId now i) in
      fst (updateLessonProgress d userId now i) = Inr r \<longrightarrow>
      (\<exists>l sp. find (\<lambda>x. le_id x = upi_lessonId i) (lessons d) = Some l \<and>
         find (\<lambda>p. sp_userId p = userId \<and> sp_courseId p = le_courseId l)
           (studentProgresses d') = Some sp \<and>
         0 < length (filter (\<lambda>x. le_courseId x = le_courseId l) (lessons d')) \<and>
         sp_completionRate sp =
           real (length (filter
                   (\<lambda>p. lp_userId p = userId \<and> lp_completed p \<and>
                        (\<exists>x\<in>set (lessons d').
                            le_id x = lp_lessonId p \<and> le_courseId x = le_courseId l))
                   (lessonProgresses d')))
             / real (length (filter (\<lambda>x. le_courseId x = le_courseId l) (lessons d')))
             * 100)) \<and>
   (let d'' = snd (markLessonComplete d userId now m) in
      fst (markLessonComplete d userId now m) = Inr r' \<longrightarrow>
      (\<exists>l sp. find (\<lambda>x. le_id x = mci_lessonId m) (lessons d) = Some l \<and>
         find (\<lambda>p. sp_userId p = userId \<and> sp_courseId p = le_courseId l)
           (studentProgresses d'') = Some sp \<and>
         0 < length (filter (\<lambda>x. le_courseId x = le_courseId l) (lessons d'')) \<and>
         sp_completionRate sp =
           real (length (filter
                   (\<lambda>p. lp_userId p = userId \<and> lp_completed p \<and>
                        (\<exists>x\<in>set (lessons d'').
                            le_id x = lp_lessonId p \<and> le_courseId x = le_courseId l))
                   (lessonProgresses d'')))
             / real (length (filter (\<lambda>x. le_courseId x = le_courseId l) (lessons d'')))
             * 100)) \<and>
   (updateCourseProgress d now userId c = Inr d3 \<and>
    filter (\<lambda>x. le_courseId x = c) (lessons d) = [] \<longrightarrow>
      (\<exists>sp. find (\<lambda>p. sp_userId p = userId \<and> sp_courseId p = c) (studentProgresses d3)
               = Some sp \<and>
            sp_completionRate sp = 0))"
proof (intro conjI)
  let ?d' = "snd (updateLessonProgress d userId now i)"
  {
    assume "fst (updateLessonProgress d userId now i) = Inr r"
    then have "updateLessonProgress d userId now i = (Inr r, ?d')"
      by (metis prod.collapse)
    from updateLessonProgress_rate[OF this] obtain l sp where
      l: "lesson_findUnique d (upi_lessonId i) = Some l" and ls: "lessons ?d' = lessons d" and
      sp: "studentProgress_findUnique ?d' userId (le_courseId l) = Some sp"
          "sp_completionRate sp =
             (if totalLessons ?d' (le_courseId l) > 0
              then real (completedLessons ?d' userId (le_courseId l))
                     / real (totalLessons ?d' (le_courseId l)) * 100
              else 0)"
      by blast
    from lesson_found_total[OF l] ls have "totalLessons ?d' (le_courseId l) > 0"
      by (simp add: totalLessons_def)
    with l sp have "\<exists>l sp. find (\<lambda>x. le_id x = upi_lessonId i) (lessons d) = Some l \<and>
         find (\<lambda>p. sp_userId p = userId \<and> sp_courseId p = le_courseId l)
           (studentProgresses ?d') = Some sp \<and>
         0 < length (filter (\<lambda>x. le_courseId x = le_courseId l) (lessons ?d')) \<and>
         sp_completionRate sp =
           real (length (filter
                   (\<lambda>p. lp_userId p = userId \<and> lp_completed p \<and>
                        (\<exists>x\<in>set (lessons ?d').
                            le_id x = lp_lessonId p \<and> le_courseId x = le_courseId l))
                   (lessonProgresses ?d')))
             / real (length (filter (\<lambda>x. le_courseId x = le_courseId l) (lessons ?d')))
             * 100"
      unfolding totalLessons_explicit completedLessons_explicit
        lesson_findUnique_def studentProgress_findUnique_def
      by (intro exI[of _ l] exI[of _ sp]) simp
  }
  then show "(let d' = snd (updateLessonProgress d userId now i) in
      fst (updateLessonProgress d userId now i) = Inr r \<longrightarrow>
      (\<exists>l sp. find (\<lambda>x. le_id x = upi_lessonId i) (lessons d) = Some l \<and>
         find (\<lambda>p. sp_userId p = userId \<and> sp_courseId p = le_courseId l)
           (studentProgresses d') = Some sp \<and>
         0 < length (filter (\<lambda>x. le_courseId x = le_courseId l) (lessons d')) \<and>
         sp_completionRate sp =
           real (length (filter
                   (\<lambda>p. lp_userId p = userId \<and> lp_completed p \<and>
                        (\<exists>x\<in>set (lessons d').
                            le_id x = lp_lessonId p \<and> le_courseId x = le_courseId l))
                   (lessonProgresses d')))
             / real (length (filter (\<lambda>x. le_courseId x = le_courseId l) (lessons d')))
             * 100))"
    by (simp add: Let_def)
next
  let ?d' = "snd (markLessonComplete d userId now m)"
  {
    assume "fst (markLessonComplete d userId now m) = Inr r'"
    then have "markLessonComplete d userId now m = (Inr r', ?d')"
      by (metis prod.collapse)
    from markLessonComplete_rate[OF this] obtain l sp where
      l: "lesson_findUnique d (mci_lessonId m) = Some l" and ls: "lessons ?d' = lessons d" and
      sp: "studentProgress_findUnique ?d' userId (le_courseId l) = Some sp"
          "sp_completionRate sp =
             (if totalLessons ?d' (le_courseId l) > 0
              then real (completedLessons ?d' userId (le_courseId l))
                     / real (totalLessons ?d' (le_courseId l)) * 100
              else 0)"
      by blast
    from lesson_found_total[OF l] ls have "totalLessons ?d' (le_courseId l) > 0"
      by (simp add: totalLessons_def)
    with l sp have "\<exists>l sp. find (\<lambda>x. le_id x = mci_lessonId m) (lessons d) = Some l \<and>
         find (\<lambda>p. sp_userId p = userId \<and> sp_courseId p = le_courseId l)
           (studentProgresses ?d') = Some sp \<and>
         0 < length (filter (\<lambda>x. le_courseId x = le_courseId l) (lessons ?d')) \<and>
         sp_completionRate sp =
           real (length (filter
                   (\<lambda>p. lp_userId p = userId \<and> lp_completed p \<and>
                        (\<exists>x\<in>set (lessons ?d').
                            le_id x = lp_lessonId p \<and> le_courseId x = le_courseId l))
                   (lessonProgresses ?d')))
             / real (length (filter (\<lambda>x. le_courseId x = le_courseId l) (lessons ?d')))
             * 100"
      unfolding totalLessons_explicit completedLessons_explicit
        lesson_findUnique_def studentProgress_findUnique_def
      by (intro exI[of _ l] exI[of _ sp]) simp
  }
  then show "(let d'' = snd (markLessonComplete d userId now m) in
      fst (markLessonComplete d userId now m) = Inr r' \<longrightarrow>
      (\<exists>l sp. find (\<lambda>x. le_id x = mci_lessonId m) (lessons d) = Some l \<and>
         find (\<lambda>p. sp_userId p = userId \<and> sp_courseId p = le_courseId l)
           (studentProgresses d'') = Some sp \<and>
         0 < length (filter (\<lambda>x. le_courseId x = le_courseId l) (lessons d'')) \<and>
         sp_completionRate sp =
           real (length (filter
                   (\<lambda>p. lp_userId p = userId \<and> lp_completed p \<and>
                        (\<exists>x\<in>set (lessons d'').
                            le_id x = lp_lessonId p \<and> le_courseId x = le_courseId l))
                   (lessonProgresses d'')))
             / real (length (filter (\<lambda>x. le_courseId x = le_courseId l) (lessons d'')))
             * 100))"
    by (simp add: Let_def)
next
  show "updateCourseProgress d now userId c = Inr d3 \<and>
    filter (\<lambda>x. le_courseId x = c) (lessons d) = [] \<longrightarrow>
      (\<exists>sp. find (\<lambda>p. sp_userId p = userId \<and> sp_courseId p = c) (studentProgresses d3)
               = Some sp \<and>
            sp_completionRate sp = 0)"
  proof
    assume h: "updateCourseProgress d now userId c = Inr d3 \<and>
      filter (\<lambda>x. le_courseId x = c) (lessons d) = []"
    then have "totalLessons d c = 0" by (simp add: totalLessons_explicit)
    with h updateCourseProgress_Inr[of d now userId c d3]
    show "\<exists>sp. find (\<lambda>p. sp_userId p = userId \<and> sp_courseId p = c) (studentProgresses d3)
               = Some sp \<and>
            sp_completionRate sp = 0"
      by (auto simp: studentProgress_findUnique_def)
  qed
qed

text \<open>
  In the class of two students the first student completes the first of the two lessons of
  the paid course, by either procedure. Of the three completed rows in the table, one
  belongs to this student and this course, and the course has two of the three lessons:
  the stored rate is 50. The rates of the other rows stay as they were. For the course
  without lessons the helper stores 0.
\<close>

theorem completionRate_recomputed_witness:
  "fst (updateLessonProgress ex_db_class ex_user 5000 ex_progress) =
     Inr \<lparr> lp_userId = ''cuser0001'', lp_lessonId = ''clesson01'',
           lp_studentProgressId = ''cprogress1'', lp_watchTime = 30, lp_completed = True,
           lp_lastPosition = 30, lp_completedAt = Some 5000 \<rparr> \<and>
   map (\<lambda>p. (sp_userId p, sp_courseId p, sp_completionRate p))
     (studentProgresses (snd (updateLessonProgress ex_db_class ex_user 5000 ex_progress)))
     = [(''cuser0001'', ''ccourse01'', 50), (''cuser0001'', ''ccourse02'', 0),
        (''cuser0001'', ''ccourse03'', 100), (''cuser0002'', ''ccourse01'', 50)] \<and>
   map (\<lambda>p. (lp_userId p, lp_lessonId p, lp_completed p))
     (lessonProgresses (snd (updateLessonProgress ex_db_class ex_user 5000 ex_progress)))
     = [(''cuser0001'', ''clesson01'', True), (''cuser0001'', ''clesson02'', False),
        (''cuser0001'', ''clesson03'', True), (''cuser0002'', ''clesson01'', True),
        (''cuser0002'', ''clesson02'', False)] \<and>
   map (\<lambda>x. (le_id x, le_courseId x))
     (lessons (snd (updateLessonProgress ex_db_class ex_user 5000 ex_progress)))
     = [(''clesson02'', ''ccourse01''), (''clesson03'', ''ccourse03''),
        (''clesson01'', ''ccourse01'')] \<and>
   fst (markLessonComplete ex_db_class ex_user 5000 ex_complete) =
     Inr \<lparr> lp_userId = ''cuser0001'', lp_lessonId = ''clesson01'',
           lp_studentProgressId = ''cprogress1'', lp_watchTime = 45, lp_completed = True,
           lp_lastPosition = 0, lp_completedAt = Some 5000 \<rparr> \<and>
   map (\<lambda>p. (sp_userId p, sp_courseId p, sp_completionRate p))
     (studentProgresses (snd (markLessonComplete ex_db_class ex_user 5000 ex_complete)))
     = [(''cuser0001'', ''ccourse01'', 50), (''cuser0001'', ''ccourse02'', 0),
        (''cuser0001'', ''ccourse03'', 100), (''cuser0002'', ''ccourse01'', 50)] \<and>
   filter (\<lambda>x. le_courseId x = ''ccourse02'') (lessons ex_db_class) = [] \<and>
   updateCourseProgress ex_db_class 5000 ex_user ''ccourse02'' = Inr ex_db_class"
  using completionRate_recomputed
    [where d = ex_db_class and userId = ex_user and now = 5000 and i = ex_progress
       and r = "\<lparr> lp_userId = ''cuser0001'', lp_lessonId = ''clesson01'',
           lp_studentProgressId = ''cprogress1'', lp_watchTime = 30, lp_completed = True,
           lp_lastPosition = 30, lp_completedAt = Some 5000 \<rparr>"
       and m = ex_complete
       and r' = "\<lparr> lp_userId = ''cuser0001'', lp_lessonId = ''clesson01'',
           lp_studentProgressId = ''cprogress1'', lp_watchTime = 45, lp_completed = True,
           lp_lastPosition = 0, lp_completedAt = Some 5000 \<rparr>"
       and c = "''ccourse02''" and ?d3.0 = ex_db_class]
  by (simp add: ex_defs query_defs progress_defs)

section \<open>Publishing\<close>

text \<open>
  Claim C3. Publishing through \<open>updateCourse\<close> is not refused when a lesson lacks a video:
  on the draft course whose second lesson has no video, \<open>updateCourse\<close> with
  \<open>published: true\<close> succeeds and the course is stored as published, while
  \<open>publishCourse\<close> of the upload router refuses the same course for that reason.
\<close>

theorem updateCourse_publishes_without_video:
  "updateCourseSchema ex_publish_update \<and>
   lessonsWithoutVideos ex_db_draft ''ccourse01'' = [ex_lesson2] \<and>
   map co_published (courses ex_db_draft) = [False, True] \<and>
   fst (updateCourse ex_db_draft ex_admin ex_publish_update) = Inr ex_course \<and>
   co_published ex_course \<and>
   map co_published (courses (snd (updateCourse ex_db_draft ex_admin ex_publish_update)))
     = [True, True] \<and>
   publishCourse ex_db_draft ex_admin \<lparr> pci_courseId = ''ccourse01'', pci_published = True \<rparr> =
     (Inl (TRPCError BAD_REQUEST
        ''Course is not ready for publishing: 1 lessons are missing videos''), ex_db_draft)"
  by (simp add: ex_defs query_defs updateCourseSchema_def cuid_def updateCourse_def
        updateCourse_body_def course_apply_update_def publishCourse_def publishCourse_body_def
        validationErrors_def lessonsWithoutVideos_def)

section \<open>Percentage coupons above 100\<close>

text \<open>
  Claim C2. A percentage coupon can reach a rate above 100 and then discounts more than the
  price. The create schema refuses a percentage above 100, and so does the update schema
  when the request names the type; an update that carries only the new value passes, the
  handler stores it, and both \<open>calculateDiscount\<close> and \<open>applyCoupon\<close> then compute a
  discount above the price (150 on a price of 100, 300 on the course priced 200). The final
  price is still clamped at zero.
\<close>

theorem percentage_above_100_after_update:
  "createCouponSchema ex_create_half \<and>
   \<not> createCouponSchema (ex_create_half\<lparr> cci_discountValue := 150 \<rparr>) \<and>
   map cp_discountValue (coupons ex_db_created) = [20, 50, 50] \<and>
   updateCouponSchema ex_raise \<and>
   \<not> updateCouponSchema (ex_raise\<lparr> uci_discountType := Some PERCENTAGE \<rparr>) \<and>
   map (\<lambda>k. (cp_code k, cp_discountType k, cp_discountValue k)) (coupons ex_db_raised) =
     [(''WELCOME20'', PERCENTAGE, 20), (''FLAT50'', FIXED_AMOUNT, 50),
      (''HALF50'', PERCENTAGE, 150)] \<and>
   calculateDiscount ex_db_raised 5000
     \<lparr> cdi_couponCode = ''HALF50'', cdi_courseId = ''ccourse01'', cdi_originalPrice = 100 \<rparr>
     = Inr \<lparr> cdr_originalPrice = 100, cdr_discountAmount = 150, cdr_finalPrice = 0,
             cdr_discountPercentage = 150, cdr_savings = 150,
             cdr_coupon = \<lparr> cs_code = ''HALF50'', cs_name = ''Half'',
                            cs_discountType = PERCENTAGE, cs_discountValue = 150 \<rparr> \<rparr> \<and>
   fst (applyCoupon ex_db_raised ex_user 5000
          \<lparr> aci_code = ''HALF50'', aci_courseId = ''ccourse01'' \<rparr>)
     = Inr \<lparr> acr_success = True, acr_coupon = (''ccoupon03'', ''HALF50'', ''Half''),
             acr_pricing = \<lparr> pr_originalPrice = 200, pr_discountAmount = 300,
                             pr_finalPrice = 0, pr_savings = 300 \<rparr>,
             acr_course = (''ccourse01'', ''Football'') \<rparr>"
  by (simp add: ex_defs query_defs coupon_admin_defs calculateDiscount_def
        calculateDiscount_body_def applyCoupon_def applyCoupon_body_def)

text \<open>
  As long as the stored rate of a percentage coupon is at most 100, the discount stays
  within the price; the final price is never negative, for either type of coupon.
\<close>

lemma percentage_le_price:
  fixes p v :: real
  assumes "0 \<le> p" "v \<le> 100"
  shows "p * v / 100 \<le> p"
proof -
  from assms have "p * v \<le> p * 100" by (simp add: mult_left_mono)
  then show ?thesis by simp
qed

lemma discount_within_price:
  assumes "calculateDiscount d now i = Inr r" and "calculateDiscountSchema i"
    and "coupon_findUnique_code d (toUpperCase (cdi_couponCode i)) = Some k"
    and "cp_discountType k = PERCENTAGE \<Longrightarrow> cp_discountValue k \<le> 100"
  shows "cdr_discountAmount r \<le> cdi_originalPrice i \<and> 0 \<le> cdr_finalPrice r"
  using assms
  by (auto simp: calculateDiscount_def calculateDiscount_body_def calculateDiscountSchema_def
        Let_def percentage_le_price split: if_splits sum.splits)

section \<open>Usage caps\<close>

text \<open>A cap that is set and reached trips one of the two usage checks of the handlers.\<close>

lemma cap_blocks:
  assumes "(cp_maxUses k = Some m \<and> m \<noteq> 0 \<and> cp_usedCount k \<ge> m) \<or>
           (cp_maxUsesPerUser k = Some mu \<and> mu \<noteq> 0 \<and>
            int (length (filter (\<lambda>x. cu_couponId x = cp_id k \<and> cu_userId x = userId)
                           (couponUsages d))) \<ge> mu)"
  shows "usage_limit_reached k \<or>
         (truthy_num (cp_maxUsesPerUser k) \<and>
          int (length (couponUsage_where d k userId)) \<ge> the (cp_maxUsesPerUser k))"
  using assms
  by (auto simp: usage_limit_reached_def truthy_num_def couponUsage_where_def)

lemma applyCoupon_blocked:
  assumes "coupon_findUnique_code d (toUpperCase (aci_code a)) = Some k"
    and "usage_limit_reached k \<or>
         (truthy_num (cp_maxUsesPerUser k) \<and>
          int (length (couponUsage_where d k userId)) \<ge> the (cp_maxUsesPerUser k))"
  shows "\<exists>e. applyCoupon d userId now a = (Inl e, d) \<and> code e = BAD_REQUEST"
  using assms
  unfolding applyCoupon_def applyCoupon_body_def Let_def catch_def
  by auto

lemma enrollCourse_coupon_blocked:
  assumes "couponCode = Some s" "s \<noteq> []" "coupon_findUnique_code d s = Some k"
    and "usage_limit_reached k \<or>
         (truthy_num (cp_maxUsesPerUser k) \<and>
          int (length (couponUsage_where d k userId)) \<ge> the (cp_maxUsesPerUser k))"
  shows "\<exists>m. enrollCourse_coupon d userId now c couponCode
               = Inl (Trpc (TRPCError BAD_REQUEST m))"
  using assms
  unfolding enrollCourse_coupon_def truthy_str_def
  by auto

lemma enrollCourse_blocked:
  assumes "eci_couponCode i = Some s" "s \<noteq> []" "coupon_findUnique_code d s = Some k"
    and "usage_limit_reached k \<or>
         (truthy_num (cp_maxUsesPerUser k) \<and>
          int (length (couponUsage_where d k userId)) \<ge> the (cp_maxUsesPerUser k))"
  shows "\<exists>e. enrollCourse d userId newId now i = (Inl e, d) \<and>
     code e = (if enrollment_findUnique d userId (eci_courseId i) \<noteq> None then CONFLICT
               else if course_findUnique_id d (eci_courseId i) = None then NOT_FOUND
               else BAD_REQUEST)"
proof -
  from enrollCourse_coupon_blocked[OF assms, of now "eci_courseId i"] obtain m where
    "enrollCourse_coupon d userId now (eci_courseId i) (eci_couponCode i)
       = Inl (Trpc (TRPCError BAD_REQUEST m))" by blast
  then show ?thesis
    unfolding enrollCourse_def enrollCourse_body_def Let_def catch_def
    by (auto split: option.splits)
qed

lemma enrollCourse_within_caps:
  assumes ok: "enrollCourse d userId newId now i = (Inr r, d')"
    and s: "eci_couponCode i = Some s" "s \<noteq> []" "coupon_findUnique_code d s = Some k"
  shows "(\<forall>m. cp_maxUses k = Some m \<and> m \<noteq> 0 \<longrightarrow> cp_usedCount k + 1 \<le> m) \<and>
         (\<forall>mu. cp_maxUsesPerUser k = Some mu \<and> mu \<noteq> 0 \<longrightarrow>
            int (length (filter (\<lambda>x. cu_couponId x = cp_id k \<and> cu_userId x = userId)
                           (couponUsages d'))) \<le> mu) \<and>
         (distinct (map cp_id (coupons d)) \<and> cp_id k \<noteq> [] \<longrightarrow>
            coupon_findUnique_id d' (cp_id k) = Some (k\<lparr> cp_usedCount := cp_usedCount k + 1 \<rparr>))"
proof -
  from enrollCourse_Inr[OF ok] obtain course applied where
    cp: "enrollCourse_coupon d userId now (eci_courseId i) (eci_couponCode i) = Inr applied" and
    tx: "enrollCourse_tx userId newId course (lessons_of_course d (eci_courseId i)) applied d
           = Inr (r, d')" by blast
  from cp s have ap: "applied = Some (cp_id k)" and
    nl: "\<not> usage_limit_reached k" and
    nu: "\<not> (truthy_num (cp_maxUsesPerUser k) \<and>
        int (length (couponUsage_where d k userId)) \<ge> the (cp_maxUsesPerUser k))"
    unfolding enrollCourse_coupon_def truthy_str_def
    by (auto split: if_splits)
  note w = enrollCourse_tx_Inr[OF tx]
  show ?thesis
  proof (intro conjI allI impI)
    fix m assume "cp_maxUses k = Some m \<and> m \<noteq> 0"
    with nl show "cp_usedCount k + 1 \<le> m"
      by (simp add: usage_limit_reached_def truthy_num_def)
  next
    fix mu assume mu: "cp_maxUsesPerUser k = Some mu \<and> mu \<noteq> 0"
    from w(6) ap have
      "couponUsages d' = couponUsages d \<or>
       couponUsages d' = couponUsages d @
         [\<lparr> cu_userId = userId, cu_couponId = cp_id k, cu_courseId = co_id course,
            cu_discountAmount = 0 \<rparr>]"
      by (auto split: if_splits)
    with nu mu show "int (length (filter (\<lambda>x. cu_couponId x = cp_id k \<and> cu_userId x = userId)
                           (couponUsages d'))) \<le> mu"
      by (auto simp: truthy_num_def couponUsage_where_def)
  next
    assume h: "distinct (map cp_id (coupons d)) \<and> cp_id k \<noteq> []"
    from s(3) have kin: "k \<in> set (coupons d)"
      by (auto simp: coupon_findUnique_code_def dest: find_Some_P)
    from find_distinct_key[of cp_id "coupons d" k] h kin
    have fk: "find (\<lambda>y. cp_id y = cp_id k) (coupons d) = Some k" by simp
    from h ap have "truthy_str applied" by (simp add: truthy_str_def)
    with w(6) ap have
      ks: "update_first (\<lambda>x. cp_id x = cp_id k) (\<lambda>k. k\<lparr> cp_usedCount := cp_usedCount k + 1 \<rparr>)
             (coupons d) = Some (coupons d')"
      by simp
    from find_update_first_same[OF ks] fk have
      "find (\<lambda>x. cp_id x = cp_id k) (coupons d')
         = Some (k\<lparr> cp_usedCount := cp_usedCount k + 1 \<rparr>)"
      by auto
    then show "coupon_findUnique_id d' (cp_id k)
                 = Some (k\<lparr> cp_usedCount := cp_usedCount k + 1 \<rparr>)"
      by (simp add: coupon_findUnique_id_def)
  qed
qed

text \<open>
  Claim C6, as stated, fails for \<open>enrollCourse\<close>: the enrollment check comes before the
  coupon checks, so a student who is already enrolled and names a used-up coupon is refused
  with \<open>CONFLICT\<close>, not with \<open>BAD_REQUEST\<close>.
\<close>

theorem enrollCourse_capped_already_enrolled:
  "coupon_findUnique_code ex_db_capped_enrolled ''WELCOME20''
     = Some (ex_coupon\<lparr> cp_usedCount := 100 \<rparr>) \<and>
   cp_maxUses (ex_coupon\<lparr> cp_usedCount := 100 \<rparr>) = Some 100 \<and>
   enrollCourse ex_db_capped_enrolled ex_user ''cprogress9'' 5000 ex_enroll_with_coupon =
     (Inl (TRPCError CONFLICT ''You are already enrolled in this course''),
      ex_db_capped_enrolled)"
  by (simp add: ex_defs query_defs enroll_defs)

text \<open>
  Claim C6, amended. Let the coupon that the request's code resolves to have a cap that is
  set (neither null nor zero) and reached: \<open>usedCount\<close> at least \<open>maxUses\<close>, or at least
  \<open>maxUsesPerUser\<close> usage rows of the calling user. Then \<open>applyCoupon\<close> fails with
  \<open>BAD_REQUEST\<close>, and \<open>enrollCourse\<close> fails without writing, with \<open>CONFLICT\<close> when the user
  is already enrolled, \<open>NOT_FOUND\<close> when the course does not exist, and \<open>BAD_REQUEST\<close>
  otherwise. A successful \<open>enrollCourse\<close> with a coupon stays within both caps: the count
  after the increment is at most \<open>maxUses\<close>, the user's usage rows after the call are at
  most \<open>maxUsesPerUser\<close>, and with unique coupon identifiers the stored coupon is the one
  found with its count raised by one.
\<close>

theorem coupon_caps_enforced:
  "((cp_maxUses k = Some m \<and> m \<noteq> 0 \<and> cp_usedCount k \<ge> m) \<or>
    (cp_maxUsesPerUser k = Some mu \<and> mu \<noteq> 0 \<and>
     int (length (filter (\<lambda>x. cu_couponId x = cp_id k \<and> cu_userId x = userId)
                    (couponUsages d))) \<ge> mu) \<longrightarrow>
      (coupon_findUnique_code d (toUpperCase (aci_code a)) = Some k \<longrightarrow>
         (\<exists>e. applyCoupon d userId now a = (Inl e, d) \<and> code e = BAD_REQUEST)) \<and>
      (eci_couponCode i = Some s \<and> s \<noteq> [] \<and> coupon_findUnique_code d s = Some k \<longrightarrow>
         (\<exists>e. enrollCourse d userId newId now i = (Inl e, d) \<and>
            code e = (if enrollment_findUnique d userId (eci_courseId i) \<noteq> None then CONFLICT
                      else if course_findUnique_id d (eci_courseId i) = None then NOT_FOUND
                      else BAD_REQUEST)))) \<and>
   (enrollCourse d userId newId now i = (Inr r, d') \<and>
    eci_couponCode i = Some s \<and> s \<noteq> [] \<and> coupon_findUnique_code d s = Some k \<longrightarrow>
      (\<forall>m. cp_maxUses k = Some m \<and> m \<noteq> 0 \<longrightarrow> cp_usedCount k + 1 \<le> m) \<and>
      (\<forall>mu. cp_maxUsesPerUser k = Some mu \<and> mu \<noteq> 0 \<longrightarrow>
         int (length (filter (\<lambda>x. cu_couponId x = cp_id k \<and> cu_userId x = userId)
                        (couponUsages d'))) \<le> mu) \<and>
      (distinct (map cp_id (coupons d)) \<and> cp_id k \<noteq> [] \<longrightarrow>
         coupon_findUnique_id d' (cp_id k) = Some (k\<lparr> cp_usedCount := cp_usedCount k + 1 \<rparr>)))"
  (is "?blocked \<and> ?within")
proof (rule conjI)
  show ?blocked
  proof (intro impI conjI)
    assume cap: "(cp_maxUses k = Some m \<and> m \<noteq> 0 \<and> cp_usedCount k \<ge> m) \<or>
      (cp_maxUsesPerUser k = Some mu \<and> mu \<noteq> 0 \<and>
       int (length (filter (\<lambda>x. cu_couponId x = cp_id k \<and> cu_userId x = userId)
                      (couponUsages d))) \<ge> mu)"
      and "coupon_findUnique_code d (toUpperCase (aci_code a)) = Some k"
    then show "\<exists>e. applyCoupon d userId now a = (Inl e, d) \<and> code e = BAD_REQUEST"
      by (intro applyCoupon_blocked cap_blocks)
  next
    assume cap: "(cp_maxUses k = Some m \<and> m \<noteq> 0 \<and> cp_usedCount k \<ge> m) \<or>
      (cp_maxUsesPerUser k = Some mu \<and> mu \<noteq> 0 \<and>
       int (length (filter (\<lambda>x. cu_couponId x = cp_id k \<and> cu_userId x = userId)
                      (couponUsages d))) \<ge> mu)"
      and "eci_couponCode i = Some s \<and> s \<noteq> [] \<and> coupon_findUnique_code d s = Some k"
    then show "\<exists>e. enrollCourse d userId newId now i = (Inl e, d) \<and>
              code e = (if enrollment_findUnique d userId (eci_courseId i) \<noteq> None then CONFLICT
                        else if course_findUnique_id d (eci_courseId i) = None then NOT_FOUND
                        else BAD_REQUEST)"
      using enrollCourse_blocked[OF _ _ _ cap_blocks, of i s d k m mu userId newId now]
      by blast
  qed
next
  show ?within
    using enrollCourse_within_caps[of d userId newId now i r d' s k] by blast
qed

text \<open>
  With the percentage coupon used up (100 of 100), and with the student's one permitted
  use already spent, both procedures answer \<open>BAD_REQUEST\<close>; on the fresh database the
  enrollment goes through and the coupon's count moves from 3 to 4 of 100, with one usage
  row of the student against a cap of one.
\<close>

theorem coupon_caps_enforced_witness:
  "applyCoupon ex_db_capped ex_user 5000 ex_apply =
     (Inl (TRPCError BAD_REQUEST ''Coupon usage limit reached''), ex_db_capped) \<and>
   enrollCourse ex_db_capped ex_user ''cprogress1'' 5000 ex_enroll_with_coupon =
     (Inl (TRPCError BAD_REQUEST ''Coupon usage limit reached''), ex_db_capped) \<and>
   applyCoupon ex_db_used ex_user 5000 ex_apply =
     (Inl (TRPCError BAD_REQUEST ''You have reached the usage limit for this coupon''),
      ex_db_used) \<and>
   enrollCourse ex_db_used ex_user ''cprogress1'' 5000 ex_enroll_with_coupon =
     (Inl (TRPCError BAD_REQUEST ''You have reached the usage limit for this coupon''),
      ex_db_used) \<and>
   fst (enrollCourse ex_db ex_user ''cprogress1'' 5000 ex_enroll_with_coupon) =
     Inr \<lparr> ecr_enrollment = \<lparr> en_userId = ''cuser0001'', en_courseId = ''ccourse01'',
                               en_appliedCouponId = Some ''ccoupon01'', en_status = ACTIVE,
                               en_progress = 0, en_completedAt = None \<rparr>,
           ecr_course = (''ccourse01'', ''Football'', ''football''),
           ecr_appliedCoupon = Some (''ccoupon01'', ''WELCOME20'', ''Welcome'') \<rparr> \<and>
   coupon_findUnique_id
     (snd (enrollCourse ex_db ex_user ''cprogress1'' 5000 ex_enroll_with_coupon)) ''ccoupon01''
     = Some (ex_coupon\<lparr> cp_usedCount := 4 \<rparr>) \<and>
   length (filter (\<lambda>x. cu_couponId x = ''ccoupon01'' \<and> cu_userId x = ex_user)
      (couponUsages (snd (enrollCourse ex_db ex_user ''cprogress1'' 5000 ex_enroll_with_coupon))))
     = 1"
  using coupon_caps_enforced
    [where k = "ex_coupon\<lparr> cp_usedCount := 100 \<rparr>" and m = 100 and mu = 1
       and userId = ex_user and d = ex_db_capped and a = ex_apply and now = 5000
       and i = ex_enroll_with_coupon and s = "''WELCOME20''" and newId = "''cprogress1''"]
    coupon_caps_enforced
    [where k = ex_coupon and m = 100 and mu = 1
       and userId = ex_user and d = ex_db_used and a = ex_apply and now = 5000
       and i = ex_enroll_with_coupon and s = "''WELCOME20''" and newId = "''cprogress1''"]
    coupon_caps_enforced
    [where k = ex_coupon and m = 100 and mu = 1
       and userId = ex_user and d = ex_db and a = ex_apply and now = 5000
       and i = ex_enroll_with_coupon and s = "''WELCOME20''" and newId = "''cprogress1''"
       and r = "\<lparr> ecr_enrollment = \<lparr> en_userId = ''cuser0001'', en_courseId = ''ccourse01'',
                               en_appliedCouponId = Some ''ccoupon01'', en_status = ACTIVE,
                               en_progress = 0, en_completedAt = None \<rparr>,
           ecr_course = (''ccourse01'', ''Football'', ''football''),
           ecr_appliedCoupon = Some (''ccoupon01'', ''WELCOME20'', ''Welcome'') \<rparr>"
       and d' = "snd (enrollCourse ex_db ex_user ''cprogress1'' 5000 ex_enroll_with_coupon)"]
  by (simp add: ex_defs query_defs enroll_defs applyCoupon_def applyCoupon_body_def)

end
